theory Spec2Isabelle
  imports Complex_Main
begin

section \<open>Data model\<close>

text \<open>
  Documents of the three collections the enrollment and review routes touch.  An
  ObjectId is a natural number, a Date is a number of milliseconds; a JavaScript
  number holding a progress value, a stored module index or a rating is an integer.  A
  field that may be \<open>null\<close> or \<open>undefined\<close> is an \<open>option\<close>.  The
  \<open>timestamps\<close> fields (createdAt, updatedAt) are read by none of the operations
  below and are left out.
\<close>

type_synonym objectId = nat
type_synonym date = nat

record course =
  course_id :: objectId
  course_isActive :: bool

record completedModule =
  moduleIndex :: int
  completedAt :: date

record enrollment =
  eid :: objectId
  student :: objectId
  course :: objectId
  progress :: int
  completedModules :: "completedModule list"
  startDate :: date
  completionDate :: "date option"
  certificateIssued :: bool
  certificateUrl :: "string option"
  lastAccessedAt :: date
  isActive :: bool

record report =
  user :: objectId
  reason :: string
  reportedAt :: date

record review =
  rid :: objectId
  rev_student :: objectId
  rev_course :: objectId
  rating :: int
  comment :: string
  isApproved :: bool
  helpfulVotes :: nat
  reportedBy :: "report list"

record db =
  courses :: "course list"
  enrollments :: "enrollment list"
  reviews :: "review list"

text \<open>
  What a handler sends back: \<open>res.status(n).json({success, message, data})\<close>.
  The payload is the document put under \<open>data\<close>, without the populated
  references.
\<close>

record 'a response =
  status :: nat
  success :: bool
  message :: string
  payload :: "'a option"

definition failure :: "nat \<Rightarrow> string \<Rightarrow> 'a response" where
  "failure code msg = \<lparr>status = code, success = False, message = msg, payload = None\<rparr>"

definition server_error :: "'a response" where
  "server_error = failure 500 ''Server error''"

datatype store_error = ValidationError | DuplicateKey

section \<open>models/Enrollment.js\<close>

text \<open>The schema's validators: \<open>min: 0\<close> and \<open>max: 100\<close> on progress.\<close>

definition Enrollment_validate :: "enrollment \<Rightarrow> bool" where
  "Enrollment_validate e = (0 \<le> progress e \<and> progress e \<le> 100)"

text \<open>
  \<open>enrollmentSchema.pre('save')\<close>.  A Date object is truthy, so
  \<open>!this.completionDate\<close> holds exactly for \<open>null\<close>.
\<close>

definition pre_save :: "date \<Rightarrow> enrollment \<Rightarrow> enrollment" where
  "pre_save now e =
     (let e1 = (if progress e = 100 \<and> completionDate e = None
                then e\<lparr>completionDate := Some now\<rparr>
                else if progress e < 100 then e\<lparr>completionDate := None\<rparr>
                else e)
      in e1\<lparr>lastAccessedAt := now\<rparr>)"

text \<open>
  \<open>doc.save()\<close> on a document read from the collection: the schema's
  validation, which Mongoose runs before the \<open>pre('save')\<close> hooks, then the
  hook, then the stored document of the same \<open>_id\<close> is replaced.  A failed
  validation rejects the save.
\<close>

definition Enrollment_save ::
  "date \<Rightarrow> enrollment \<Rightarrow> enrollment list \<Rightarrow> store_error + enrollment list" where
  "Enrollment_save now e es =
     (if \<not> Enrollment_validate e then Inl ValidationError
      else Inr (map (\<lambda>d. if eid d = eid e then pre_save now e else d) es))"

definition Enrollment_findById :: "enrollment list \<Rightarrow> objectId \<Rightarrow> enrollment option" where
  "Enrollment_findById es i = find (\<lambda>d. eid d = i) es"

definition Enrollment_findOne ::
  "enrollment list \<Rightarrow> objectId \<Rightarrow> objectId \<Rightarrow> enrollment option" where
  "Enrollment_findOne es u c = find (\<lambda>d. student d = u \<and> course d = c) es"

text \<open>A new \<open>_id\<close>: one that no document of the collection has.\<close>

definition new_id :: "objectId list \<Rightarrow> objectId" where
  "new_id ids = Suc (fold max ids 0)"

text \<open>
  \<open>Enrollment.create({student, course})\<close>: the schema defaults, validation and
  the save hook, then the insert, which the unique index on (student, course)
  rejects when the collection already holds a document of that pair.
\<close>

definition Enrollment_create ::
  "date \<Rightarrow> objectId \<Rightarrow> objectId \<Rightarrow> enrollment list
     \<Rightarrow> store_error + (enrollment \<times> enrollment list)" where
  "Enrollment_create now u c es =
     (let e = \<lparr>eid = new_id (map eid es), student = u, course = c, progress = 0,
                completedModules = [], startDate = now, completionDate = None,
                certificateIssued = False, certificateUrl = None,
                lastAccessedAt = now, isActive = True\<rparr>
      in if \<not> Enrollment_validate e then Inl ValidationError
         else if \<exists>d \<in> set es. student d = u \<and> course d = c then Inl DuplicateKey
         else Inr (pre_save now e, es @ [pre_save now e]))"

definition Course_findById :: "course list \<Rightarrow> objectId \<Rightarrow> course option" where
  "Course_findById cs i = find (\<lambda>c. course_id c = i) cs"

section \<open>routes/enrollments.js\<close>

text \<open>
  \<open>POST /api/enrollments\<close>.  The handler awaits the lookup of the existing
  enrollment and, later, the insert; \<open>meanwhile\<close> holds the documents that other
  requests inserted into the collection between the two.  The \<open>catch\<close> block
  answers every rejected store call with 500.
\<close>

definition enrollments_post_concurrent ::
  "enrollment list \<Rightarrow> db \<Rightarrow> objectId \<Rightarrow> objectId option \<Rightarrow> date
     \<Rightarrow> enrollment response \<times> db" where
  "enrollments_post_concurrent meanwhile s u courseId now =
     (case courseId of
        None \<Rightarrow> (failure 400 ''Course ID is required'', s)
      | Some cid \<Rightarrow>
         (case Course_findById (courses s) cid of
            None \<Rightarrow> (failure 404 ''Course not found or inactive'', s)
          | Some c \<Rightarrow>
             if \<not> course_isActive c
             then (failure 404 ''Course not found or inactive'', s)
             else
               (case Enrollment_findOne (enrollments s) u cid of
                  Some existing \<Rightarrow>
                    if isActive existing
                    then (failure 400 ''Already enrolled in this course'', s)
                    else
                      (let e = existing\<lparr>isActive := True, startDate := now\<rparr>
                       in case Enrollment_save now e (enrollments s) of
                            Inl err \<Rightarrow> (server_error, s)
                          | Inr es' \<Rightarrow>
                              (\<lparr>status = 200, success = True,
                                message = ''Re-enrolled in course successfully'',
                                payload = Some (pre_save now e)\<rparr>,
                               s\<lparr>enrollments := es'\<rparr>))
                | None \<Rightarrow>
                    (let s1 = s\<lparr>enrollments := enrollments s @ meanwhile\<rparr>
                     in case Enrollment_create now u cid (enrollments s1) of
                          Inl err \<Rightarrow> (server_error, s1)
                        | Inr (e, es') \<Rightarrow>
                            (\<lparr>status = 201, success = True,
                              message = ''Enrolled in course successfully'',
                              payload = Enrollment_findById es' (eid e)\<rparr>,
                             s1\<lparr>enrollments := es'\<rparr>)))))"

text \<open>The handler when no other request writes in between.\<close>

definition enrollments_post ::
  "db \<Rightarrow> objectId \<Rightarrow> objectId option \<Rightarrow> date \<Rightarrow> enrollment response \<times> db" where
  "enrollments_post = enrollments_post_concurrent []"

text \<open>
  A \<open>completedModuleIndex\<close> as the request body carries it, unvalidated: a
  JSON number, or a string that Mongoose's Number cast reads as that number (the
  string \<open>"2"\<close> is \<open>NumericString 2\<close>).  The stored \<open>moduleIndex\<close> is
  always a Number, so \<open>m.moduleIndex === completedModuleIndex\<close> holds for an
  equal number and for no string; the cast on \<open>push\<close> stores the number either
  way.
\<close>

datatype index_value = Number int | NumericString int

fun strict_equals :: "int \<Rightarrow> index_value \<Rightarrow> bool" where
  "strict_equals n (Number k) = (n = k)"
| "strict_equals n (NumericString k) = False"

fun cast_Number :: "index_value \<Rightarrow> int" where
  "cast_Number (Number k) = k"
| "cast_Number (NumericString k) = k"

text \<open>
  The module push of \<open>PUT /api/enrollments/:id/progress\<close>:
  \<open>completedModules.find(m => m.moduleIndex === completedModuleIndex)\<close> and the
  \<open>push\<close> when nothing is found.
\<close>

definition add_completed_module ::
  "date \<Rightarrow> index_value option \<Rightarrow> completedModule list \<Rightarrow> completedModule list" where
  "add_completed_module now completedModuleIndex ms =
     (case completedModuleIndex of
        None \<Rightarrow> ms
      | Some v \<Rightarrow>
         (case find (\<lambda>m. strict_equals (moduleIndex m) v) ms of
            Some existingModule \<Rightarrow> ms
          | None \<Rightarrow> ms @ [\<lparr>moduleIndex = cast_Number v, completedAt = now\<rparr>]))"

text \<open>
  \<open>PUT /api/enrollments/:id/progress\<close>; \<open>progress\<close> and
  \<open>completedModuleIndex\<close> are \<open>None\<close> when the body does not carry them.
\<close>

definition enrollments_put_progress ::
  "db \<Rightarrow> objectId \<Rightarrow> objectId \<Rightarrow> int option \<Rightarrow> index_value option \<Rightarrow> date
     \<Rightarrow> enrollment response \<times> db" where
  "enrollments_put_progress s u i progress_in completedModuleIndex now =
     (case progress_in of
        None \<Rightarrow> (failure 400 ''Progress must be between 0 and 100'', s)
      | Some p \<Rightarrow>
         if p < 0 \<or> p > 100
         then (failure 400 ''Progress must be between 0 and 100'', s)
         else
           (case Enrollment_findById (enrollments s) i of
              None \<Rightarrow> (failure 404 ''Enrollment not found'', s)
            | Some enr \<Rightarrow>
               if student enr \<noteq> u then (failure 403 ''Access denied'', s)
               else
                 (let e = enr\<lparr>progress := p, lastAccessedAt := now,
                              completedModules :=
                                add_completed_module now completedModuleIndex
                                  (completedModules enr)\<rparr>
                  in case Enrollment_save now e (enrollments s) of
                       Inl err \<Rightarrow> (server_error, s)
                     | Inr es' \<Rightarrow>
                         (\<lparr>status = 200, success = True,
                           message = ''Progress updated successfully'',
                           payload = Enrollment_findById es' (eid e)\<rparr>,
                          s\<lparr>enrollments := es'\<rparr>))))"

text \<open>\<open>DELETE /api/enrollments/:id\<close>: the soft delete.\<close>

definition enrollments_delete ::
  "db \<Rightarrow> objectId \<Rightarrow> objectId \<Rightarrow> date \<Rightarrow> enrollment response \<times> db" where
  "enrollments_delete s u i now =
     (case Enrollment_findById (enrollments s) i of
        None \<Rightarrow> (failure 404 ''Enrollment not found'', s)
      | Some enr \<Rightarrow>
         if student enr \<noteq> u then (failure 403 ''Access denied'', s)
         else
           (case Enrollment_save now (enr\<lparr>isActive := False\<rparr>) (enrollments s) of
              Inl err \<Rightarrow> (server_error, s)
            | Inr es' \<Rightarrow>
                (\<lparr>status = 200, success = True,
                  message = ''Unenrolled from course successfully'',
                  payload = None\<rparr>,
                 s\<lparr>enrollments := es'\<rparr>)))"

section \<open>models/Review.js and models/Course.js\<close>

text \<open>
  Modelled from the spec: the Review schema (models/Review.js) is not among the
  sources.  The specification gives a new review \<open>isApproved = true\<close>,
  \<open>helpfulVotes = 0\<close> and \<open>reportedBy = []\<close>, and a new report
  \<open>reportedAt = now\<close>.
\<close>

definition Review_create ::
  "objectId \<Rightarrow> objectId \<Rightarrow> int \<Rightarrow> string \<Rightarrow> review list \<Rightarrow> review \<times> review list" where
  "Review_create u c r cm rs =
     (let rv = \<lparr>rid = new_id (map rid rs), rev_student = u, rev_course = c, rating = r,
                 comment = cm, isApproved = True, helpfulVotes = 0, reportedBy = []\<rparr>
      in (rv, rs @ [rv]))"

text \<open>
  Modelled from the spec: the Review schema's hooks and validators are not among
  the sources and the specification names none, so \<open>review.save()\<close> replaces
  the stored document of the same \<open>_id\<close>.
\<close>

definition Review_save :: "review \<Rightarrow> review list \<Rightarrow> review list" where
  "Review_save rv rs = map (\<lambda>d. if rid d = rid rv then rv else d) rs"

definition Review_findById :: "review list \<Rightarrow> objectId \<Rightarrow> review option" where
  "Review_findById rs i = find (\<lambda>d. rid d = i) rs"

definition Review_findOne :: "review list \<Rightarrow> objectId \<Rightarrow> objectId \<Rightarrow> review option" where
  "Review_findOne rs u c = find (\<lambda>d. rev_student d = u \<and> rev_course d = c) rs"

text \<open>
  \<open>Math.round\<close> rounds to the nearest integer, a half towards plus infinity.
  The averages are exact rationals here, where JavaScript has doubles.
\<close>

definition Math_round :: "rat \<Rightarrow> int" where
  "Math_round x = \<lfloor>x + 1 / 2\<rfloor>"

record review_group =
  averageRating :: rat
  totalReviews :: nat

record course_stats =
  stats_rating :: rat
  stats_reviewCount :: nat

text \<open>
  The pipeline of \<open>calculateAverageRating\<close>: \<open>$match\<close> keeps the approved
  reviews of the course, \<open>$group\<close> by course yields no group when nothing
  matched and one group otherwise.
\<close>

definition Review_aggregate :: "review list \<Rightarrow> objectId \<Rightarrow> review_group list" where
  "Review_aggregate rs c =
     (let matched = filter (\<lambda>r. rev_course r = c \<and> isApproved r) rs
      in if matched = [] then []
         else [\<lparr>averageRating = of_int (sum_list (map rating matched)) / of_nat (length matched),
                totalReviews = length matched\<rparr>])"

definition calculateAverageRating :: "review list \<Rightarrow> course \<Rightarrow> course_stats" where
  "calculateAverageRating rs this =
     (case Review_aggregate rs (course_id this) of
        g # _ \<Rightarrow> \<lparr>stats_rating = of_int (Math_round (averageRating g * 10)) / 10,
                  stats_reviewCount = totalReviews g\<rparr>
      | [] \<Rightarrow> \<lparr>stats_rating = 0, stats_reviewCount = 0\<rparr>)"

section \<open>routes/reviews.js\<close>

text \<open>
  \<open>POST /api/reviews\<close>, the handler behind \<open>protect\<close> and
  \<open>validateReviewCreation\<close>: it receives the requesting user and a body that
  passed the validation.
\<close>

definition reviews_post ::
  "db \<Rightarrow> objectId \<Rightarrow> objectId \<Rightarrow> int \<Rightarrow> string \<Rightarrow> review response \<times> db" where
  "reviews_post s u courseId r cm =
     (case Course_findById (courses s) courseId of
        None \<Rightarrow> (failure 404 ''Course not found'', s)
      | Some c \<Rightarrow>
         if \<not> course_isActive c then (failure 404 ''Course not found'', s)
         else
           (case find (\<lambda>d. student d = u \<and> course d = courseId \<and> isActive d)
                   (enrollments s) of
              None \<Rightarrow>
                (failure 400 ''You must be enrolled in this course to leave a review'', s)
            | Some enrollment \<Rightarrow>
               (case Review_findOne (reviews s) u courseId of
                  Some existingReview \<Rightarrow>
                    (failure 400 ''You have already reviewed this course'', s)
                | None \<Rightarrow>
                    (case Review_create u courseId r cm (reviews s) of
                       (rv, rs') \<Rightarrow>
                         (\<lparr>status = 201, success = True,
                           message = ''Review created successfully'',
                           payload = Review_findById rs' (rid rv)\<rparr>,
                          s\<lparr>reviews := rs'\<rparr>)))))"

text \<open>
  \<open>String.prototype.trim\<close> on a string of Latin-1 code units: tab, line feed,
  vertical tab, form feed, carriage return, space and no-break space are removed
  from both ends.
\<close>

definition is_space :: "char \<Rightarrow> bool" where
  "is_space ch = (of_char ch \<in> {9, 10, 11, 12, 13, 32, 160 :: nat})"

definition trim :: "string \<Rightarrow> string" where
  "trim str = rev (dropWhile is_space (rev (dropWhile is_space str)))"

text \<open>
  \<open>POST /api/reviews/:id/report\<close>; the reason is \<open>None\<close> when the body has
  none, and \<open>!reason\<close> also holds for the empty string.
\<close>

definition reviews_report ::
  "db \<Rightarrow> objectId \<Rightarrow> objectId \<Rightarrow> string option \<Rightarrow> date \<Rightarrow> review response \<times> db" where
  "reviews_report s u i reason_in now =
     (case reason_in of
        None \<Rightarrow> (failure 400 ''Report reason is required'', s)
      | Some rsn \<Rightarrow>
         if rsn = [] \<or> length (trim rsn) = 0
         then (failure 400 ''Report reason is required'', s)
         else
           (case Review_findById (reviews s) i of
              None \<Rightarrow> (failure 404 ''Review not found'', s)
            | Some rv \<Rightarrow>
               (case find (\<lambda>rep. user rep = u) (reportedBy rv) of
                  Some existingReport \<Rightarrow>
                    (failure 400 ''You have already reported this review'', s)
                | None \<Rightarrow>
                    (\<lparr>status = 200, success = True,
                      message = ''Review reported successfully'', payload = None\<rparr>,
                     s\<lparr>reviews :=
                         Review_save
                           (rv\<lparr>reportedBy := reportedBy rv @
                               [\<lparr>user = u, reason = trim rsn, reportedAt = now\<rparr>]\<rparr>)
                           (reviews s)\<rparr>))))"

section \<open>routes/admin.js\<close>

text \<open>
  \<open>PUT /api/admin/reviews/:id/moderate\<close>, behind \<open>protect\<close> and
  \<open>authorize('admin')\<close>.  The success message is the template
  \<open>Review ${action}d successfully\<close>.
\<close>

definition admin_moderate ::
  "db \<Rightarrow> objectId \<Rightarrow> string \<Rightarrow> review response \<times> db" where
  "admin_moderate s i action =
     (if action \<notin> set [''approve'', ''reject'']
      then (failure 400 ''Action must be either approve or reject'', s)
      else
        (case Review_findById (reviews s) i of
           None \<Rightarrow> (failure 404 ''Review not found'', s)
         | Some rv \<Rightarrow>
            (let rv' = (if action = ''approve''
                        then rv\<lparr>isApproved := True, reportedBy := []\<rparr>
                        else rv\<lparr>isApproved := False\<rparr>)
             in (\<lparr>status = 200, success = True,
                  message = ''Review '' @ action @ ''d successfully'',
                  payload = Some rv'\<rparr>,
                 s\<lparr>reviews := Review_save rv' (reviews s)\<rparr>))))"

section \<open>Store constraints and the error taxonomy\<close>

text \<open>
  The two unique indexes of the enrollment collection: \<open>_id\<close>, and the compound
  index on (student, course) that the schema declares.
\<close>

definition unique_indexes :: "enrollment list \<Rightarrow> bool" where
  "unique_indexes es =
     (distinct (map eid es) \<and> distinct (map (\<lambda>d. (student d, course d)) es))"

text \<open>
  The outcomes of the specification's error handling design and the status codes
  it gives each of them.
\<close>

datatype outcome = InvalidInput | NotFound | Forbidden | Conflict | Internal

fun outcome_status :: "outcome \<Rightarrow> nat set" where
  "outcome_status InvalidInput = {400}"
| "outcome_status NotFound = {404}"
| "outcome_status Forbidden = {403}"
| "outcome_status Conflict = {400, 409}"
| "outcome_status Internal = {500}"

section \<open>Sample data\<close>

definition inactive_enrollment :: enrollment where
  "inactive_enrollment =
     \<lparr>eid = 8, student = 2, course = 3, progress = 100,
      completedModules = [\<lparr>moduleIndex = 0, completedAt = 300\<rparr>,
                          \<lparr>moduleIndex = 1, completedAt = 350\<rparr>],
      startDate = 200, completionDate = Some 350, certificateIssued = False,
      certificateUrl = None, lastAccessedAt = 600, isActive = False\<rparr>"

definition race_winner :: enrollment where
  "race_winner =
     \<lparr>eid = 9, student = 5, course = 3, progress = 0, completedModules = [],
      startDate = 899, completionDate = None, certificateIssued = False,
      certificateUrl = None, lastAccessedAt = 899, isActive = True\<rparr>"

definition sample_review :: review where
  "sample_review =
     \<lparr>rid = 20, rev_student = 6, rev_course = 3, rating = 5,
      comment = ''Excellent course'', isApproved = True, helpfulVotes = 2,
      reportedBy = [\<lparr>user = 2, reason = ''spam'', reportedAt = 700\<rparr>]\<rparr>"

definition rated_reviews :: "review list" where
  "rated_reviews =
     [\<lparr>rid = 21, rev_student = 6, rev_course = 3, rating = 5, comment = ''five stars'',
       isApproved = True, helpfulVotes = 0, reportedBy = []\<rparr>,
      \<lparr>rid = 22, rev_student = 2, rev_course = 3, rating = 3, comment = ''three stars'',
       isApproved = True, helpfulVotes = 0, reportedBy = []\<rparr>,
      \<lparr>rid = 23, rev_student = 4, rev_course = 3, rating = 1, comment = ''rejected one'',
       isApproved = False, helpfulVotes = 0, reportedBy = []\<rparr>,
      \<lparr>rid = 24, rev_student = 5, rev_course = 3, rating = 4, comment = ''four stars'',
       isApproved = True, helpfulVotes = 0, reportedBy = []\<rparr>,
      \<lparr>rid = 25, rev_student = 6, rev_course = 4, rating = 1, comment = ''other course'',
       isApproved = True, helpfulVotes = 0, reportedBy = []\<rparr>]"



definition sample_enrollment :: enrollment where
  "sample_enrollment =
     \<lparr>eid = 7, student = 6, course = 3, progress = 40,
      completedModules = [\<lparr>moduleIndex = 0, completedAt = 500\<rparr>],
      startDate = 400, completionDate = None, certificateIssued = False,
      certificateUrl = None, lastAccessedAt = 500, isActive = True\<rparr>"

definition sample_db :: db where
  "sample_db =
     \<lparr>courses = [\<lparr>course_id = 3, course_isActive = True\<rparr>,
                 \<lparr>course_id = 4, course_isActive = False\<rparr>],
      enrollments = [sample_enrollment, inactive_enrollment],
      reviews = [sample_review]\<rparr>"

section \<open>Lookups, saves and the routes' results\<close>

lemma find_map_replace:
  "find P xs = Some x \<Longrightarrow> Q x \<Longrightarrow> P y \<Longrightarrow>
   find P (map (\<lambda>d. if Q d then y else d) xs) = Some y"
  by (induction xs) (auto split: if_splits)

lemma pre_save_fields [simp]:
  "eid (pre_save now e) = eid e"
  "student (pre_save now e) = student e"
  "course (pre_save now e) = course e"
  "progress (pre_save now e) = progress e"
  "completedModules (pre_save now e) = completedModules e"
  "startDate (pre_save now e) = startDate e"
  "isActive (pre_save now e) = isActive e"
  "lastAccessedAt (pre_save now e) = now"
  "certificateIssued (pre_save now e) = certificateIssued e"
  "certificateUrl (pre_save now e) = certificateUrl e"
  by (simp_all add: pre_save_def Let_def)

lemma pre_save_completionDate:
  "completionDate (pre_save now e) =
     (if progress e = 100 then (case completionDate e of None \<Rightarrow> Some now | Some t \<Rightarrow> Some t)
      else if progress e < 100 then None else completionDate e)"
  by (simp add: pre_save_def Let_def split: option.splits)

lemma pre_save_consistent:
  "progress e \<le> 100 \<Longrightarrow>
   (completionDate (pre_save now e) \<noteq> None) = (progress (pre_save now e) = 100)"
  by (auto simp: pre_save_completionDate split: option.splits)

lemma save_findById:
  assumes "Enrollment_save now e es = Inr es'" "Enrollment_findById es (eid e) = Some x"
  shows "Enrollment_findById es' (eid e) = Some (pre_save now e)"
proof -
  from assms(1) have es': "es' = map (\<lambda>d. if eid d = eid e then pre_save now e else d) es"
    by (auto simp: Enrollment_save_def split: if_splits)
  from assms(2) have "eid x = eid e"
    by (auto simp: Enrollment_findById_def dest: find_Some_iff[THEN iffD1])
  with assms(2) show ?thesis
    unfolding es' Enrollment_findById_def
    by (intro find_map_replace[where x = x]) simp_all
qed


lemma save_valid:
  "0 \<le> progress e \<Longrightarrow> progress e \<le> 100 \<Longrightarrow>
   Enrollment_save now e es = Inr (map (\<lambda>d. if eid d = eid e then pre_save now e else d) es)"
  by (simp add: Enrollment_save_def Enrollment_validate_def)

lemma findById_eid: "Enrollment_findById es i = Some x \<Longrightarrow> eid x = i \<and> x \<in> set es"
  by (auto simp: Enrollment_findById_def find_Some_iff)

lemma findOne_pair:
  "Enrollment_findOne es u c = Some x \<Longrightarrow> student x = u \<and> course x = c \<and> x \<in> set es"
  by (auto simp: Enrollment_findOne_def find_Some_iff)

lemma findOne_None:
  "Enrollment_findOne es u c = None \<longleftrightarrow> \<not> (\<exists>d \<in> set es. student d = u \<and> course d = c)"
  by (auto simp: Enrollment_findOne_def find_None_iff)

lemma fold_max_ge: "x \<in> set ids \<Longrightarrow> x \<le> fold max ids (0::nat)"
proof -
  assume "x \<in> set ids"
  then have "x \<le> Max (set (0 # ids))" by (intro Max_ge) simp_all
  then show ?thesis by (simp only: Max.set_eq_fold)
qed

lemma new_id_fresh: "new_id ids \<notin> set ids"
  using fold_max_ge [of "new_id ids" ids] by (auto simp: new_id_def)

lemma put_progress_ok:
  assumes "0 \<le> p" "p \<le> 100" "Enrollment_findById (enrollments s) i = Some enr"
    "student enr = u"
  shows "enrollments_put_progress s u i (Some p) m now =
     (\<lparr>status = 200, success = True, message = ''Progress updated successfully'',
       payload = Some (pre_save now (enr\<lparr>progress := p, lastAccessedAt := now,
          completedModules := add_completed_module now m (completedModules enr)\<rparr>))\<rparr>,
      s\<lparr>enrollments := map (\<lambda>d. if eid d = i
          then pre_save now (enr\<lparr>progress := p, lastAccessedAt := now,
            completedModules := add_completed_module now m (completedModules enr)\<rparr>)
          else d) (enrollments s)\<rparr>)"
proof -
  let ?e = "enr\<lparr>progress := p, lastAccessedAt := now,
          completedModules := add_completed_module now m (completedModules enr)\<rparr>"
  have i: "eid enr = i" using assms(3) by (simp add: findById_eid)
  have sv: "Enrollment_save now ?e (enrollments s) =
     Inr (map (\<lambda>d. if eid d = eid ?e then pre_save now ?e else d) (enrollments s))"
    using assms(1,2) by (intro save_valid) simp_all
  have fb: "Enrollment_findById (map (\<lambda>d. if eid d = eid ?e then pre_save now ?e else d) (enrollments s)) (eid ?e) = Some (pre_save now ?e)"
    using save_findById [OF sv] assms(3) i by simp
  show ?thesis
    using assms sv fb i by (simp add: enrollments_put_progress_def Let_def)
qed


lemma delete_ok:
  assumes "0 \<le> progress enr" "progress enr \<le> 100"
    "Enrollment_findById (enrollments s) i = Some enr" "student enr = u"
  shows "enrollments_delete s u i now =
     (\<lparr>status = 200, success = True, message = ''Unenrolled from course successfully'',
       payload = None\<rparr>,
      s\<lparr>enrollments := map (\<lambda>d. if eid d = i then pre_save now (enr\<lparr>isActive := False\<rparr>)
          else d) (enrollments s)\<rparr>)"
proof -
  have i: "eid enr = i" using assms(3) by (simp add: findById_eid)
  have sv: "Enrollment_save now (enr\<lparr>isActive := False\<rparr>) (enrollments s) =
     Inr (map (\<lambda>d. if eid d = eid (enr\<lparr>isActive := False\<rparr>)
        then pre_save now (enr\<lparr>isActive := False\<rparr>) else d) (enrollments s))"
    using assms(1,2) by (intro save_valid) simp_all
  show ?thesis
    using assms sv i by (simp add: enrollments_delete_def)
qed

lemma status_failure [simp]: "status (failure code msg) = code"
  by (simp add: failure_def)

lemma status_server_error [simp]: "status server_error = 500"
  by (simp add: server_error_def)

lemma create_ok:
  assumes "Enrollment_findOne es u c = None"
  shows "Enrollment_create now u c es =
    Inr (\<lparr>eid = new_id (map eid es), student = u, course = c, progress = 0,
                completedModules = [], startDate = now, completionDate = None,
                certificateIssued = False, certificateUrl = None,
                lastAccessedAt = now, isActive = True\<rparr>,
         es @ [\<lparr>eid = new_id (map eid es), student = u, course = c, progress = 0,
                completedModules = [], startDate = now, completionDate = None,
                certificateIssued = False, certificateUrl = None,
                lastAccessedAt = now, isActive = True\<rparr>])"
  using assms
  by (simp add: Enrollment_create_def Enrollment_validate_def Let_def findOne_None pre_save_def)

lemma create_duplicate:
  assumes "\<exists>d \<in> set es. student d = u \<and> course d = c"
  shows "Enrollment_create now u c es = Inl DuplicateKey"
  using assms
  by (simp add: Enrollment_create_def Enrollment_validate_def Let_def)

lemma findById_append_new:
  "eid e \<notin> eid ` set es \<Longrightarrow> Enrollment_findById (es @ [e]) (eid e) = Some e"
  by (induction es) (auto simp: Enrollment_findById_def)

lemma findOne_append_new:
  "Enrollment_findOne es u c = None \<Longrightarrow> student e = u \<Longrightarrow> course e = c \<Longrightarrow>
   Enrollment_findOne (es @ [e]) u c = Some e"
  by (induction es) (auto simp: Enrollment_findOne_def split: if_splits)

lemma enroll_create:
  assumes "Course_findById (courses s) c = Some co" "course_isActive co"
    "Enrollment_findOne (enrollments s) u c = None"
  shows "enrollments_post s u (Some c) now =
     (\<lparr>status = 201, success = True, message = ''Enrolled in course successfully'',
       payload = Some \<lparr>eid = new_id (map eid (enrollments s)), student = u, course = c,
                progress = 0, completedModules = [], startDate = now, completionDate = None,
                certificateIssued = False, certificateUrl = None,
                lastAccessedAt = now, isActive = True\<rparr>\<rparr>,
      s\<lparr>enrollments := enrollments s @
         [\<lparr>eid = new_id (map eid (enrollments s)), student = u, course = c,
                progress = 0, completedModules = [], startDate = now, completionDate = None,
                certificateIssued = False, certificateUrl = None,
                lastAccessedAt = now, isActive = True\<rparr>]\<rparr>)"
proof -
  let ?e = "\<lparr>eid = new_id (map eid (enrollments s)), student = u, course = c,
                progress = 0, completedModules = [], startDate = now, completionDate = None,
                certificateIssued = False, certificateUrl = None,
                lastAccessedAt = now, isActive = True\<rparr>"
  have fresh: "eid ?e \<notin> eid ` set (enrollments s)"
    using new_id_fresh [of "map eid (enrollments s)"] by simp
  have fb: "Enrollment_findById (enrollments s @ [?e]) (new_id (map eid (enrollments s))) = Some ?e"
    using findById_append_new [OF fresh] by simp
  show ?thesis
    using assms create_ok [OF assms(3), of now] fb
    by (simp add: enrollments_post_def enrollments_post_concurrent_def Let_def)
qed

lemma enroll_reactivate:
  assumes "Course_findById (courses s) c = Some co" "course_isActive co"
    "Enrollment_findOne (enrollments s) u c = Some e" "\<not> isActive e"
    "0 \<le> progress e" "progress e \<le> 100"
  shows "enrollments_post s u (Some c) now =
     (\<lparr>status = 200, success = True, message = ''Re-enrolled in course successfully'',
       payload = Some (pre_save now (e\<lparr>isActive := True, startDate := now\<rparr>))\<rparr>,
      s\<lparr>enrollments := map (\<lambda>d. if eid d = eid e
          then pre_save now (e\<lparr>isActive := True, startDate := now\<rparr>) else d)
          (enrollments s)\<rparr>)"
proof -
  have sv: "Enrollment_save now (e\<lparr>isActive := True, startDate := now\<rparr>) (enrollments s) =
     Inr (map (\<lambda>d. if eid d = eid (e\<lparr>isActive := True, startDate := now\<rparr>)
        then pre_save now (e\<lparr>isActive := True, startDate := now\<rparr>) else d) (enrollments s))"
    using assms(5,6) by (intro save_valid) simp_all
  show ?thesis
    using assms(1-4) sv
    by (simp add: enrollments_post_def enrollments_post_concurrent_def Let_def)
qed

lemma enroll_already:
  assumes "Course_findById (courses s) c = Some co" "course_isActive co"
    "Enrollment_findOne (enrollments s) u c = Some e" "isActive e"
  shows "enrollments_post s u (Some c) now =
     (failure 400 ''Already enrolled in this course'', s)"
  using assms by (simp add: enrollments_post_def enrollments_post_concurrent_def)

lemma enroll_success_cases:
  assumes "status (fst (enrollments_post s u (Some c) now)) \<in> {200, 201}"
  shows "\<exists>co. Course_findById (courses s) c = Some co \<and> course_isActive co \<and>
     (Enrollment_findOne (enrollments s) u c = None \<or>
      (\<exists>e. Enrollment_findOne (enrollments s) u c = Some e \<and> \<not> isActive e \<and>
           0 \<le> progress e \<and> progress e \<le> 100))"
  using assms
  by (auto simp: enrollments_post_def enrollments_post_concurrent_def Let_def
      Enrollment_save_def Enrollment_validate_def
      split: option.splits if_splits sum.splits)


lemma put_progress_success_cases:
  assumes "status (fst (enrollments_put_progress s u i (Some p) m now)) = 200"
  shows "0 \<le> p \<and> p \<le> 100 \<and>
     (\<exists>enr. Enrollment_findById (enrollments s) i = Some enr \<and> student enr = u)"
  using assms
  by (auto simp: enrollments_put_progress_def Let_def
      split: option.splits if_splits sum.splits)

lemma delete_success_cases:
  assumes "status (fst (enrollments_delete s u i now)) = 200"
  shows "\<exists>enr. Enrollment_findById (enrollments s) i = Some enr \<and> student enr = u \<and>
     0 \<le> progress enr \<and> progress enr \<le> 100"
  using assms
  by (auto simp: enrollments_delete_def Let_def Enrollment_save_def Enrollment_validate_def
      split: option.splits if_splits sum.splits)

lemma findById_replaced:
  assumes "Enrollment_findById es i = Some x" "eid y = i"
  shows "Enrollment_findById (map (\<lambda>d. if eid d = i then y else d) es) i = Some y"
  using assms unfolding Enrollment_findById_def
  by (intro find_map_replace [where x = x]) (auto simp: find_Some_iff)

lemma findOne_replaced:
  assumes "Enrollment_findOne es u c = Some x" "student y = u" "course y = c"
  shows "Enrollment_findOne (map (\<lambda>d. if eid d = eid x then y else d) es) u c = Some y"
  using assms unfolding Enrollment_findOne_def
  by (intro find_map_replace [where x = x]) auto

lemma save_consistent:
  assumes "Enrollment_save now e es = Inr es'" "d \<in> set es'" "eid d = eid e"
  shows "(completionDate d \<noteq> None) = (progress d = 100)"
proof -
  from assms(1) have v: "progress e \<le> 100"
    and es': "es' = map (\<lambda>d. if eid d = eid e then pre_save now e else d) es"
    by (auto simp: Enrollment_save_def Enrollment_validate_def split: if_splits)
  from assms(2,3) es' have "d = pre_save now e" by auto
  with pre_save_consistent [OF v, of now] show ?thesis
    by simp
qed

lemma enroll_consistent:
  assumes "status (fst (enrollments_post s u (Some c) now)) \<in> {200, 201}"
  shows "\<exists>d. Enrollment_findOne (enrollments (snd (enrollments_post s u (Some c) now))) u c
            = Some d \<and> (completionDate d \<noteq> None) = (progress d = 100)"
proof -
  from enroll_success_cases [OF assms] obtain co where
    co: "Course_findById (courses s) c = Some co" "course_isActive co" and
    cases: "Enrollment_findOne (enrollments s) u c = None \<or>
      (\<exists>e. Enrollment_findOne (enrollments s) u c = Some e \<and> \<not> isActive e \<and>
           0 \<le> progress e \<and> progress e \<le> 100)" by blast
  from cases show ?thesis
  proof
    assume none: "Enrollment_findOne (enrollments s) u c = None"
    show ?thesis
      by (simp add: enroll_create [OF co none] findOne_append_new [OF none])
  next
    assume "\<exists>e. Enrollment_findOne (enrollments s) u c = Some e \<and> \<not> isActive e \<and>
           0 \<le> progress e \<and> progress e \<le> 100"
    then obtain e where e: "Enrollment_findOne (enrollments s) u c = Some e" "\<not> isActive e"
      "0 \<le> progress e" "progress e \<le> 100" by blast
    have pair: "student e = u" "course e = c" using findOne_pair [OF e(1)] by simp_all
    have "progress (e\<lparr>isActive := True, startDate := now\<rparr>) \<le> 100" using e(4) by simp
    from pre_save_consistent [OF this, of now] show ?thesis
      by (simp add: enroll_reactivate [OF co e] findOne_replaced [OF e(1)] pair)
  qed
qed

lemma put_progress_consistent:
  assumes "status (fst (enrollments_put_progress s u i (Some p) m now)) = 200"
  shows "\<exists>d. Enrollment_findById (enrollments (snd (enrollments_put_progress s u i (Some p) m now))) i
            = Some d \<and> progress d = p \<and> (completionDate d \<noteq> None) = (progress d = 100) \<and>
            (p < 100 \<longrightarrow> completionDate d = None) \<and> (p = 100 \<longrightarrow> completionDate d \<noteq> None)"
proof -
  from put_progress_success_cases [OF assms] obtain enr where
    p: "0 \<le> p" "p \<le> 100" and enr: "Enrollment_findById (enrollments s) i = Some enr"
    "student enr = u" by blast
  have i: "eid enr = i" using enr(1) by (simp add: findById_eid)
  show ?thesis
    using p by (simp add: put_progress_ok [OF p enr] findById_replaced [OF enr(1)] i
      pre_save_completionDate split: option.splits)
qed

lemma delete_consistent:
  assumes "status (fst (enrollments_delete s u i now)) = 200"
  shows "\<exists>d. Enrollment_findById (enrollments (snd (enrollments_delete s u i now))) i
            = Some d \<and> (completionDate d \<noteq> None) = (progress d = 100)"
proof -
  from delete_success_cases [OF assms] obtain enr where
    enr: "Enrollment_findById (enrollments s) i = Some enr" "student enr = u" and
    p: "0 \<le> progress enr" "progress enr \<le> 100" by blast
  have i: "eid enr = i" using enr(1) by (simp add: findById_eid)
  show ?thesis
    using p by (simp add: delete_ok [OF p enr] findById_replaced [OF enr(1)] i
      pre_save_completionDate split: option.splits)
qed

section \<open>The completion date follows the progress\<close>

text \<open>
  Claim C1.  Whatever an enrollment save writes has a completion date exactly when
  its progress is 100.  This holds of the save itself (every stored document of
  the saved \<open>_id\<close>), of the document a successful enrollment request leaves
  for the pair, created or reactivated, of the document a successful progress
  update leaves under the id, where a progress below 100 clears the date and a
  progress of 100 gives one, and of the document a successful unenrollment leaves.
\<close>

theorem completion_date_iff_progress_100:
  "(Enrollment_save now e es = Inr es' \<longrightarrow>
      (\<forall>d \<in> set es'. eid d = eid e \<longrightarrow> (completionDate d \<noteq> None) = (progress d = 100)))
   \<and> (status (fst (enrollments_post s1 u1 (Some c1) t1)) \<in> {200, 201} \<longrightarrow>
      (\<exists>d. Enrollment_findOne (enrollments (snd (enrollments_post s1 u1 (Some c1) t1))) u1 c1
            = Some d \<and> (completionDate d \<noteq> None) = (progress d = 100)))
   \<and> (status (fst (enrollments_put_progress s2 u2 i2 (Some p) m t2)) = 200 \<longrightarrow>
      (\<exists>d. Enrollment_findById
               (enrollments (snd (enrollments_put_progress s2 u2 i2 (Some p) m t2))) i2 = Some d
           \<and> progress d = p \<and> (completionDate d \<noteq> None) = (progress d = 100)
           \<and> (p < 100 \<longrightarrow> completionDate d = None)
           \<and> (p = 100 \<longrightarrow> completionDate d \<noteq> None)))
   \<and> (status (fst (enrollments_delete s3 u3 i3 t3)) = 200 \<longrightarrow>
      (\<exists>d. Enrollment_findById (enrollments (snd (enrollments_delete s3 u3 i3 t3))) i3 = Some d
           \<and> (completionDate d \<noteq> None) = (progress d = 100)))"
  using save_consistent [of now e es es'] enroll_consistent [of s1 u1 c1 t1]
    put_progress_consistent [of s2 u2 i2 p m t2] delete_consistent [of s3 u3 i3 t3]
  by blast


theorem completion_date_iff_progress_100_witness:
  "Enrollment_save 900 (sample_enrollment\<lparr>progress := 100\<rparr>) [sample_enrollment]
     = Inr [sample_enrollment\<lparr>progress := 100, completionDate := Some 900,
                              lastAccessedAt := 900\<rparr>]
   \<and> status (fst (enrollments_post sample_db 2 (Some 3) 900)) \<in> {200, 201}
   \<and> (\<exists>d. Enrollment_findOne (enrollments (snd (enrollments_post sample_db 2 (Some 3) 900))) 2 3
            = Some d \<and> (completionDate d \<noteq> None) = (progress d = 100))
   \<and> status (fst (enrollments_put_progress sample_db 6 7 (Some 100) None 900)) = 200
   \<and> (\<exists>d. Enrollment_findById
             (enrollments (snd (enrollments_put_progress sample_db 6 7 (Some 100) None 900))) 7
            = Some d \<and> progress d = 100 \<and> completionDate d \<noteq> None)
   \<and> status (fst (enrollments_put_progress sample_db 2 8 (Some 50) None 900)) = 200
   \<and> (\<exists>d. Enrollment_findById
             (enrollments (snd (enrollments_put_progress sample_db 2 8 (Some 50) None 900))) 8
            = Some d \<and> progress d = 50 \<and> completionDate d = None)
   \<and> status (fst (enrollments_delete sample_db 6 7 900)) = 200
   \<and> (\<exists>d. Enrollment_findById (enrollments (snd (enrollments_delete sample_db 6 7 900))) 7
            = Some d \<and> (completionDate d \<noteq> None) = (progress d = 100))"
proof -
  have sv: "Enrollment_save 900 (sample_enrollment\<lparr>progress := 100\<rparr>) [sample_enrollment]
     = Inr [sample_enrollment\<lparr>progress := 100, completionDate := Some 900,
                              lastAccessedAt := 900\<rparr>]"
    by (simp add: Enrollment_save_def Enrollment_validate_def pre_save_def sample_enrollment_def)
  have en: "status (fst (enrollments_post sample_db 2 (Some 3) 900)) \<in> {200, 201}"
    by (simp add: enrollments_post_def enrollments_post_concurrent_def sample_db_def
        sample_enrollment_def inactive_enrollment_def Course_findById_def
        Enrollment_findOne_def Enrollment_save_def Enrollment_validate_def Let_def)
  have p1: "status (fst (enrollments_put_progress sample_db 6 7 (Some 100) None 900)) = 200"
    by (simp add: enrollments_put_progress_def sample_db_def
        sample_enrollment_def inactive_enrollment_def Enrollment_findById_def
        Enrollment_save_def Enrollment_validate_def Let_def)
  have p2: "status (fst (enrollments_put_progress sample_db 2 8 (Some 50) None 900)) = 200"
    by (simp add: enrollments_put_progress_def sample_db_def
        sample_enrollment_def inactive_enrollment_def Enrollment_findById_def
        Enrollment_save_def Enrollment_validate_def Let_def)
  have dl: "status (fst (enrollments_delete sample_db 6 7 900)) = 200"
    by (simp add: enrollments_delete_def sample_db_def
        sample_enrollment_def inactive_enrollment_def Enrollment_findById_def
        Enrollment_save_def Enrollment_validate_def Let_def)
  note A = completion_date_iff_progress_100 [where now = 900
        and e = "sample_enrollment\<lparr>progress := 100\<rparr>" and es = "[sample_enrollment]"
        and es' = "[sample_enrollment\<lparr>progress := 100, completionDate := Some 900,
                              lastAccessedAt := 900\<rparr>]"
        and ?s1.0 = sample_db and ?u1.0 = 2 and ?c1.0 = 3 and ?t1.0 = 900
        and ?s2.0 = sample_db and ?u2.0 = 6 and ?i2.0 = 7 and p = 100 and m = None
        and ?t2.0 = 900
        and ?s3.0 = sample_db and ?u3.0 = 6 and ?i3.0 = 7 and ?t3.0 = 900]
  note B = completion_date_iff_progress_100 [where
            ?s2.0 = sample_db and ?u2.0 = 2 and ?i2.0 = 8 and p = 50 and m = None
        and ?t2.0 = 900]
  have c1: "\<exists>d. Enrollment_findOne (enrollments (snd (enrollments_post sample_db 2 (Some 3) 900))) 2 3
            = Some d \<and> (completionDate d \<noteq> None) = (progress d = 100)"
    using A [THEN conjunct2, THEN conjunct1] en by (rule mp)
  have "\<exists>d. Enrollment_findById
             (enrollments (snd (enrollments_put_progress sample_db 6 7 (Some 100) None 900))) 7
            = Some d \<and> progress d = 100 \<and> (completionDate d \<noteq> None) = (progress d = 100)
           \<and> ((100::int) < 100 \<longrightarrow> completionDate d = None)
           \<and> ((100::int) = 100 \<longrightarrow> completionDate d \<noteq> None)"
    using A [THEN conjunct2, THEN conjunct2, THEN conjunct1] p1 by (rule mp)
  then have c2: "\<exists>d. Enrollment_findById
             (enrollments (snd (enrollments_put_progress sample_db 6 7 (Some 100) None 900))) 7
            = Some d \<and> progress d = 100 \<and> completionDate d \<noteq> None"
    by blast
  have "\<exists>d. Enrollment_findById
             (enrollments (snd (enrollments_put_progress sample_db 2 8 (Some 50) None 900))) 8
            = Some d \<and> progress d = 50 \<and> (completionDate d \<noteq> None) = (progress d = 100)
           \<and> ((50::int) < 100 \<longrightarrow> completionDate d = None)
           \<and> ((50::int) = 100 \<longrightarrow> completionDate d \<noteq> None)"
    using B [THEN conjunct2, THEN conjunct2, THEN conjunct1] p2 by (rule mp)
  then have c3: "\<exists>d. Enrollment_findById
             (enrollments (snd (enrollments_put_progress sample_db 2 8 (Some 50) None 900))) 8
            = Some d \<and> progress d = 50 \<and> completionDate d = None"
    by auto
  have c4: "\<exists>d. Enrollment_findById (enrollments (snd (enrollments_delete sample_db 6 7 900))) 7
            = Some d \<and> (completionDate d \<noteq> None) = (progress d = 100)"
    using A [THEN conjunct2, THEN conjunct2, THEN conjunct2] dl by (rule mp)
  from sv en p1 p2 dl c1 c2 c3 c4 show ?thesis by (intro conjI)
qed


section \<open>Progress updates outside the range\<close>

text \<open>
  Claim C3.  A progress update whose value is below 0 or above 100 is answered with
  400 and the message of the range check, whatever the enrollment id, the
  requester and the module index are, and the database it returns is the one it
  was given: the check comes before the first read.
\<close>

theorem put_progress_out_of_range:
  "p < 0 \<or> 100 < p \<Longrightarrow>
   enrollments_put_progress s u i (Some p) cmi now =
     (failure 400 ''Progress must be between 0 and 100'', s)"
  by (auto simp: enrollments_put_progress_def)

theorem put_progress_out_of_range_witness:
  "((101::int) < 0 \<or> 100 < (101::int)) \<and>
   enrollments_put_progress sample_db 6 7 (Some 101) (Some (Number 2)) 900 =
     (failure 400 ''Progress must be between 0 and 100'', sample_db)"
  using put_progress_out_of_range [of 101 sample_db 6 7 "Some (Number 2)" 900] by simp


section \<open>Progress updates and the active flag\<close>

lemma put_progress_stored:
  assumes "0 \<le> p" "p \<le> 100" "Enrollment_findById (enrollments s) i = Some enr"
    "student enr = u"
  shows "Enrollment_findById (enrollments (snd (enrollments_put_progress s u i (Some p) m now))) i =
     Some (enr\<lparr>progress := p,
               completedModules := add_completed_module now m (completedModules enr),
               lastAccessedAt := now,
               completionDate :=
                 (if p = 100
                  then (case completionDate enr of None \<Rightarrow> Some now | Some t \<Rightarrow> Some t)
                  else None)\<rparr>)"
proof -
  have i: "eid enr = i" using assms(3) by (simp add: findById_eid)
  have "pre_save now (enr\<lparr>progress := p, lastAccessedAt := now,
          completedModules := add_completed_module now m (completedModules enr)\<rparr>) =
        enr\<lparr>progress := p,
               completedModules := add_completed_module now m (completedModules enr),
               lastAccessedAt := now,
               completionDate :=
                 (if p = 100
                  then (case completionDate enr of None \<Rightarrow> Some now | Some t \<Rightarrow> Some t)
                  else None)\<rparr>"
    using assms(2) by (cases "completionDate enr") (auto simp: pre_save_def Let_def)
  then show ?thesis
    by (simp add: put_progress_ok [OF assms] findById_replaced [OF assms(3)] i)
qed

text \<open>
  Claim C10.  A progress update reads the progress range, the existence of the
  enrollment and its owner, and nothing else: it answers 200 exactly when the value
  lies within 0..100, the enrollment exists and the requester is its student,
  whether the enrollment is active or not.  The stored document then is the old
  one with its progress, completed modules, last access and completion date
  rewritten by a rule that does not look at \<open>isActive\<close>, and with every other
  field, \<open>isActive\<close> among them, as it was.
\<close>

theorem put_progress_ignores_isActive:
  "((status (fst (enrollments_put_progress s u i (Some p) m now)) = 200) =
      (0 \<le> p \<and> p \<le> 100 \<and>
       (\<exists>e. Enrollment_findById (enrollments s) i = Some e \<and> student e = u)))
   \<and> (0 \<le> p \<and> p \<le> 100 \<and> Enrollment_findById (enrollments s) i = Some enr \<and>
       student enr = u \<longrightarrow>
        Enrollment_findById
          (enrollments (snd (enrollments_put_progress s u i (Some p) m now))) i =
          Some (enr\<lparr>progress := p,
                    completedModules := add_completed_module now m (completedModules enr),
                    lastAccessedAt := now,
                    completionDate :=
                      (if p = 100
                       then (case completionDate enr of
                               None \<Rightarrow> Some now | Some t \<Rightarrow> Some t)
                       else None)\<rparr>))"
proof (intro conjI impI)
  show "(status (fst (enrollments_put_progress s u i (Some p) m now)) = 200) =
      (0 \<le> p \<and> p \<le> 100 \<and>
       (\<exists>e. Enrollment_findById (enrollments s) i = Some e \<and> student e = u))"
  proof
    assume "status (fst (enrollments_put_progress s u i (Some p) m now)) = 200"
    then show "0 \<le> p \<and> p \<le> 100 \<and>
       (\<exists>e. Enrollment_findById (enrollments s) i = Some e \<and> student e = u)"
      by (rule put_progress_success_cases)
  next
    assume "0 \<le> p \<and> p \<le> 100 \<and>
       (\<exists>e. Enrollment_findById (enrollments s) i = Some e \<and> student e = u)"
    then obtain e where "0 \<le> p" "p \<le> 100" "Enrollment_findById (enrollments s) i = Some e"
      "student e = u" by blast
    then show "status (fst (enrollments_put_progress s u i (Some p) m now)) = 200"
      by (simp add: put_progress_ok)
  qed
next
  assume "0 \<le> p \<and> p \<le> 100 \<and> Enrollment_findById (enrollments s) i = Some enr \<and>
       student enr = u"
  then show "Enrollment_findById
          (enrollments (snd (enrollments_put_progress s u i (Some p) m now))) i =
          Some (enr\<lparr>progress := p,
                    completedModules := add_completed_module now m (completedModules enr),
                    lastAccessedAt := now,
                    completionDate :=
                      (if p = 100
                       then (case completionDate enr of
                               None \<Rightarrow> Some now | Some t \<Rightarrow> Some t)
                       else None)\<rparr>)"
    using put_progress_stored by blast
qed

theorem put_progress_ignores_isActive_witness:
  "(0::int) \<le> 60 \<and> (60::int) \<le> 100 \<and>
   Enrollment_findById (enrollments sample_db) 8 = Some inactive_enrollment \<and>
   student inactive_enrollment = 2 \<and> isActive inactive_enrollment = False \<and>
   status (fst (enrollments_put_progress sample_db 2 8 (Some 60) (Some (Number 2)) 900)) = 200 \<and>
   Enrollment_findById
     (enrollments (snd (enrollments_put_progress sample_db 2 8 (Some 60) (Some (Number 2)) 900))) 8 =
     Some \<lparr>eid = 8, student = 2, course = 3, progress = 60,
           completedModules = [\<lparr>moduleIndex = 0, completedAt = 300\<rparr>,
                               \<lparr>moduleIndex = 1, completedAt = 350\<rparr>,
                               \<lparr>moduleIndex = 2, completedAt = 900\<rparr>],
           startDate = 200, completionDate = None, certificateIssued = False,
           certificateUrl = None, lastAccessedAt = 900, isActive = False\<rparr>"
proof -
  have f: "Enrollment_findById (enrollments sample_db) 8 = Some inactive_enrollment"
    by (simp add: Enrollment_findById_def sample_db_def sample_enrollment_def
        inactive_enrollment_def)
  have o: "student inactive_enrollment = 2" "isActive inactive_enrollment = False"
    by (simp_all add: inactive_enrollment_def)
  have r: "(0::int) \<le> 60" "(60::int) \<le> 100" by simp_all
  have v: "inactive_enrollment\<lparr>progress := 60,
               completedModules :=
                 add_completed_module 900 (Some (Number 2)) (completedModules inactive_enrollment),
               lastAccessedAt := 900,
               completionDate :=
                 (if (60::int) = 100
                  then (case completionDate inactive_enrollment of
                          None \<Rightarrow> Some 900 | Some t \<Rightarrow> Some t)
                  else None)\<rparr> =
     \<lparr>eid = 8, student = 2, course = 3, progress = 60,
           completedModules = [\<lparr>moduleIndex = 0, completedAt = 300\<rparr>,
                               \<lparr>moduleIndex = 1, completedAt = 350\<rparr>,
                               \<lparr>moduleIndex = 2, completedAt = 900\<rparr>],
           startDate = 200, completionDate = None, certificateIssued = False,
           certificateUrl = None, lastAccessedAt = 900, isActive = False\<rparr>"
    by (simp add: inactive_enrollment_def add_completed_module_def)
  note T = put_progress_ignores_isActive [of sample_db 2 8 60 "Some (Number 2)" 900 inactive_enrollment]
  have a: "status (fst (enrollments_put_progress sample_db 2 8 (Some 60) (Some (Number 2)) 900)) = 200"
    using T [THEN conjunct1] r f o(1) by blast
  have b: "Enrollment_findById
     (enrollments (snd (enrollments_put_progress sample_db 2 8 (Some 60) (Some (Number 2)) 900))) 8 =
     Some (inactive_enrollment\<lparr>progress := 60,
               completedModules :=
                 add_completed_module 900 (Some (Number 2)) (completedModules inactive_enrollment),
               lastAccessedAt := 900,
               completionDate :=
                 (if (60::int) = 100
                  then (case completionDate inactive_enrollment of
                          None \<Rightarrow> Some 900 | Some t \<Rightarrow> Some t)
                  else None)\<rparr>)"
    using T [THEN conjunct2] r f o(1) by blast
  from r f o a b [unfolded v] show ?thesis by (intro conjI)
qed

section \<open>Completing a module twice\<close>

lemma add_completed_module_number:
  "add_completed_module t (Some (Number k)) ms =
     (case find (\<lambda>x. moduleIndex x = k) ms of
        Some existingModule \<Rightarrow> ms
      | None \<Rightarrow> ms @ [\<lparr>moduleIndex = k, completedAt = t\<rparr>])"
  by (simp add: add_completed_module_def split: option.splits)

lemma add_completed_module_string:
  "add_completed_module t (Some (NumericString k)) ms =
     ms @ [\<lparr>moduleIndex = k, completedAt = t\<rparr>]"
proof -
  have "find (\<lambda>m. strict_equals (moduleIndex m) (NumericString k)) ms = None"
    by (simp add: find_None_iff)
  then show ?thesis by (simp add: add_completed_module_def)
qed

lemma add_completed_module_number_twice:
  "add_completed_module t2 (Some (Number k)) (add_completed_module t1 (Some (Number k)) ms) =
   add_completed_module t1 (Some (Number k)) ms"
  by (auto simp: add_completed_module_number find_None_iff split: option.splits)

lemma filter_distinct_find:
  "distinct (map f xs) \<Longrightarrow> find (\<lambda>x. f x = k) xs = Some y \<Longrightarrow>
   filter (\<lambda>x. f x = k) xs = [y]"
proof (induction xs)
  case Nil
  then show ?case by simp
next
  case (Cons a xs)
  show ?case
  proof (cases "f a = k")
    case True
    from True Cons.prems(2) have "y = a" by simp
    moreover from True Cons.prems(1) have "\<forall>x \<in> set xs. f x \<noteq> k"
      by (metis distinct.simps(2) imageI list.simps(9) set_map)
    ultimately have "y = a" and "\<forall>x \<in> set xs. f x \<noteq> k" by blast+
    then show ?thesis using True by (simp add: filter_empty_conv)
  next
    case False
    with Cons show ?thesis by simp
  qed
qed

lemma add_completed_module_number_filter:
  assumes "distinct (map moduleIndex ms)"
  shows "filter (\<lambda>x. moduleIndex x = k) (add_completed_module t (Some (Number k)) ms) =
     [case find (\<lambda>x. moduleIndex x = k) ms of
        None \<Rightarrow> \<lparr>moduleIndex = k, completedAt = t\<rparr> | Some x \<Rightarrow> x]"
proof (cases "find (\<lambda>x. moduleIndex x = k) ms")
  case None
  then have "filter (\<lambda>x. moduleIndex x = k) ms = []"
    by (simp add: find_None_iff filter_empty_conv)
  with None show ?thesis by (simp add: add_completed_module_number)
next
  case (Some y)
  with filter_distinct_find [OF assms Some] show ?thesis
    by (simp add: add_completed_module_number)
qed

text \<open>
  The branch of the dedupe that works: an index sent as a number.  After a
  successful update naming module \<open>k\<close>, a second one naming it succeeds and
  leaves the completed modules as they were, and from a list with distinct indices
  exactly one entry of index \<open>k\<close> results, with its first time.
\<close>

lemma completed_module_number_idempotent:
  assumes "enrollments_put_progress s u i (Some p1) (Some (Number k)) t1 = (r1, s1)"
    "status r1 = 200"
    "enrollments_put_progress s1 u i (Some p2) (Some (Number k)) t2 = (r2, s2)"
    "0 \<le> p2" "p2 \<le> 100"
    "Enrollment_findById (enrollments s) i = Some enr"
    "distinct (map moduleIndex (completedModules enr))"
  shows "status r2 = 200 \<and>
    (\<exists>d1 d2. Enrollment_findById (enrollments s1) i = Some d1 \<and>
       Enrollment_findById (enrollments s2) i = Some d2 \<and>
       completedModules d2 = completedModules d1 \<and>
       filter (\<lambda>x. moduleIndex x = k) (completedModules d2) =
         [case find (\<lambda>x. moduleIndex x = k) (completedModules enr) of
            None \<Rightarrow> \<lparr>moduleIndex = k, completedAt = t1\<rparr> | Some x \<Rightarrow> x])"
proof -
  from assms(1,2)
  have "status (fst (enrollments_put_progress s u i (Some p1) (Some (Number k)) t1)) = 200"
    by simp
  from put_progress_success_cases [OF this] assms(6)
  have p1: "0 \<le> p1" "p1 \<le> 100" and own: "student enr = u" by auto
  let ?d1 = "enr\<lparr>progress := p1,
               completedModules :=
                 add_completed_module t1 (Some (Number k)) (completedModules enr),
               lastAccessedAt := t1,
               completionDate :=
                 (if p1 = 100
                  then (case completionDate enr of None \<Rightarrow> Some t1 | Some t \<Rightarrow> Some t)
                  else None)\<rparr>"
  have f1: "Enrollment_findById (enrollments s1) i = Some ?d1"
    using put_progress_stored [OF p1 assms(6) own, of "Some (Number k)" t1] assms(1) by simp
  have own1: "student ?d1 = u" using own by simp
  let ?d2 = "?d1\<lparr>progress := p2,
               completedModules :=
                 add_completed_module t2 (Some (Number k)) (completedModules ?d1),
               lastAccessedAt := t2,
               completionDate :=
                 (if p2 = 100
                  then (case completionDate ?d1 of None \<Rightarrow> Some t2 | Some t \<Rightarrow> Some t)
                  else None)\<rparr>"
  have f2: "Enrollment_findById (enrollments s2) i = Some ?d2"
    using put_progress_stored [OF assms(4,5) f1 own1, of "Some (Number k)" t2] assms(3)
    by simp
  have st: "status r2 = 200"
    using put_progress_ok [OF assms(4,5) f1 own1, of "Some (Number k)" t2] assms(3) by simp
  have cm: "completedModules ?d2 = completedModules ?d1"
    by (simp add: add_completed_module_number_twice)
  have fl: "filter (\<lambda>x. moduleIndex x = k) (completedModules ?d2) =
         [case find (\<lambda>x. moduleIndex x = k) (completedModules enr) of
            None \<Rightarrow> \<lparr>moduleIndex = k, completedAt = t1\<rparr> | Some x \<Rightarrow> x]"
    using add_completed_module_number_filter [OF assms(7), of k t1]
    by (simp add: add_completed_module_number_twice)
  from st f1 f2 cm fl show ?thesis by blast
qed

text \<open>
  Claim C4.  The claim wants the same \<open>completedModuleIndex\<close> submitted twice
  to leave exactly one entry of that index.  The handler looks the index up with
  \<open>===\<close> against the stored numbers and casts it on \<open>push\<close>, so an index
  sent as the string \<open>"2"\<close> is never found and is stored as 2 each time.  On
  the sample enrollment, which has module 0 only, two updates by its student with
  \<open>completedModuleIndex: "2"\<close> are both answered with 200 and leave two
  entries of index 2, the second with the time of the second call.
\<close>

theorem completed_module_string_index_twice:
  "status (fst (enrollments_put_progress sample_db 6 7 (Some 50)
                  (Some (NumericString 2)) 900)) = 200 \<and>
   status (fst (enrollments_put_progress
                  (snd (enrollments_put_progress sample_db 6 7 (Some 50)
                          (Some (NumericString 2)) 900))
                  6 7 (Some 60) (Some (NumericString 2)) 950)) = 200 \<and>
   map_option completedModules
     (Enrollment_findById
        (enrollments (snd (enrollments_put_progress
                  (snd (enrollments_put_progress sample_db 6 7 (Some 50)
                          (Some (NumericString 2)) 900))
                  6 7 (Some 60) (Some (NumericString 2)) 950))) 7) =
     Some [\<lparr>moduleIndex = 0, completedAt = 500\<rparr>,
           \<lparr>moduleIndex = 2, completedAt = 900\<rparr>,
           \<lparr>moduleIndex = 2, completedAt = 950\<rparr>]"
  by (simp add: enrollments_put_progress_def sample_db_def sample_enrollment_def
      inactive_enrollment_def Enrollment_findById_def Enrollment_save_def
      Enrollment_validate_def Let_def add_completed_module_string pre_save_def)

section \<open>Enrolling\<close>

lemma map_replace_same_key:
  assumes "distinct (map eid es)" "e \<in> set es" "f e' = f e"
  shows "map f (map (\<lambda>d. if eid d = eid e then e' else d) es) = map f es"
proof -
  have "\<And>d. d \<in> set es \<Longrightarrow> eid d = eid e \<Longrightarrow> d = e"
    using assms(1,2) by (meson distinct_map inj_on_eq_iff)
  with assms(3) show ?thesis by (auto simp: map_eq_conv)
qed

lemma save_unique_indexes:
  assumes "unique_indexes es" "e \<in> set es" "eid e' = eid e" "student e' = student e"
    "course e' = course e"
  shows "unique_indexes (map (\<lambda>d. if eid d = eid e then e' else d) es)"
proof -
  have d: "distinct (map eid es)" using assms(1) by (simp add: unique_indexes_def)
  have "map eid (map (\<lambda>d. if eid d = eid e then e' else d) es) = map eid es"
    using assms(3) by (intro map_replace_same_key [OF d assms(2)])
  moreover have "map (\<lambda>d. (student d, course d)) (map (\<lambda>d. if eid d = eid e then e' else d) es)
      = map (\<lambda>d. (student d, course d)) es"
    using assms(4,5) by (intro map_replace_same_key [OF d assms(2)]) simp
  ultimately show ?thesis using assms(1) by (simp only: unique_indexes_def)
qed

lemma create_unique_indexes:
  assumes "unique_indexes es" "Enrollment_findOne es u c = None" "student e = u" "course e = c"
    "eid e = new_id (map eid es)"
  shows "unique_indexes (es @ [e])"
  using assms new_id_fresh [of "map eid es"]
  by (auto simp: unique_indexes_def findOne_None)

lemma enroll_unique_indexes:
  assumes "unique_indexes (enrollments s)"
  shows "unique_indexes (enrollments (snd (enrollments_post s u courseId now)))"
proof (cases "status (fst (enrollments_post s u courseId now)) \<in> {200, 201}")
  case False
  then have "snd (enrollments_post s u courseId now) = s"
    by (auto simp: enrollments_post_def enrollments_post_concurrent_def Let_def
        Enrollment_create_def
        split: option.splits if_splits sum.splits prod.splits)
  with assms show ?thesis by simp
next
  case True
  then obtain c where cid: "courseId = Some c"
    by (cases courseId) (auto simp: enrollments_post_def enrollments_post_concurrent_def)
  from enroll_success_cases [OF True [unfolded cid]] obtain co where
    co: "Course_findById (courses s) c = Some co" "course_isActive co" and
    cases: "Enrollment_findOne (enrollments s) u c = None \<or>
      (\<exists>e. Enrollment_findOne (enrollments s) u c = Some e \<and> \<not> isActive e \<and>
           0 \<le> progress e \<and> progress e \<le> 100)" by blast
  from cases show ?thesis
  proof
    assume none: "Enrollment_findOne (enrollments s) u c = None"
    show ?thesis
      unfolding cid
      by (simp add: enroll_create [OF co none] create_unique_indexes [OF assms none])
  next
    assume "\<exists>e. Enrollment_findOne (enrollments s) u c = Some e \<and> \<not> isActive e \<and>
           0 \<le> progress e \<and> progress e \<le> 100"
    then obtain e where e: "Enrollment_findOne (enrollments s) u c = Some e" "\<not> isActive e"
      "0 \<le> progress e" "progress e \<le> 100" by blast
    have mem: "e \<in> set (enrollments s)" using findOne_pair [OF e(1)] by simp
    show ?thesis
      unfolding cid
      by (simp add: enroll_reactivate [OF co e] save_unique_indexes [OF assms mem])
  qed
qed

text \<open>
  Claim C2.  For an existing, active course, an enrollment request splits three
  ways on the document found for the student and the course.  An active one: 400
  with the message of the duplicate, and the database as it was.  An inactive one
  (with a stored progress the schema accepts): 200 with the message of the
  re-enrollment, and in place of the document the same one with \<open>isActive\<close>
  true and \<open>startDate\<close> now, the save hook having run, so that id, progress
  and completed modules are as before.  None: 201, and the collection has one more
  document, of a new id, for the pair, with progress 0 and \<open>isActive\<close> true.
  In every case the unique indexes of the collection are kept: one document at
  most for a pair.
\<close>

theorem enroll_three_way:
  assumes "Course_findById (courses s) c = Some co" "course_isActive co"
  shows
   "(case Enrollment_findOne (enrollments s) u c of
       Some e \<Rightarrow>
         if isActive e
         then enrollments_post s u (Some c) now =
                (failure 400 ''Already enrolled in this course'', s)
         else 0 \<le> progress e \<and> progress e \<le> 100 \<longrightarrow>
              enrollments_post s u (Some c) now =
                (\<lparr>status = 200, success = True,
                  message = ''Re-enrolled in course successfully'',
                  payload = Some (e\<lparr>isActive := True, startDate := now, lastAccessedAt := now,
                    completionDate :=
                      (if progress e = 100
                       then (case completionDate e of None \<Rightarrow> Some now | Some t \<Rightarrow> Some t)
                       else None)\<rparr>)\<rparr>,
                 s\<lparr>enrollments :=
                     map (\<lambda>d. if eid d = eid e
                               then e\<lparr>isActive := True, startDate := now, lastAccessedAt := now,
                                 completionDate :=
                                   (if progress e = 100
                                    then (case completionDate e of
                                            None \<Rightarrow> Some now | Some t \<Rightarrow> Some t)
                                    else None)\<rparr>
                               else d) (enrollments s)\<rparr>)
     | None \<Rightarrow>
         \<exists>e'. enrollments_post s u (Some c) now =
                (\<lparr>status = 201, success = True,
                  message = ''Enrolled in course successfully'', payload = Some e'\<rparr>,
                 s\<lparr>enrollments := enrollments s @ [e']\<rparr>) \<and>
              student e' = u \<and> course e' = c \<and> progress e' = 0 \<and> isActive e' \<and>
              completedModules e' = [] \<and> eid e' \<notin> eid ` set (enrollments s))
    \<and> (unique_indexes (enrollments s) \<longrightarrow>
          unique_indexes (enrollments (snd (enrollments_post s u (Some c) now))))"
proof (intro conjI)
  show "unique_indexes (enrollments s) \<longrightarrow>
          unique_indexes (enrollments (snd (enrollments_post s u (Some c) now)))"
    using enroll_unique_indexes by blast
next
  show "case Enrollment_findOne (enrollments s) u c of
       Some e \<Rightarrow>
         if isActive e
         then enrollments_post s u (Some c) now =
                (failure 400 ''Already enrolled in this course'', s)
         else 0 \<le> progress e \<and> progress e \<le> 100 \<longrightarrow>
              enrollments_post s u (Some c) now =
                (\<lparr>status = 200, success = True,
                  message = ''Re-enrolled in course successfully'',
                  payload = Some (e\<lparr>isActive := True, startDate := now, lastAccessedAt := now,
                    completionDate :=
                      (if progress e = 100
                       then (case completionDate e of None \<Rightarrow> Some now | Some t \<Rightarrow> Some t)
                       else None)\<rparr>)\<rparr>,
                 s\<lparr>enrollments :=
                     map (\<lambda>d. if eid d = eid e
                               then e\<lparr>isActive := True, startDate := now, lastAccessedAt := now,
                                 completionDate :=
                                   (if progress e = 100
                                    then (case completionDate e of
                                            None \<Rightarrow> Some now | Some t \<Rightarrow> Some t)
                                    else None)\<rparr>
                               else d) (enrollments s)\<rparr>)
     | None \<Rightarrow>
         \<exists>e'. enrollments_post s u (Some c) now =
                (\<lparr>status = 201, success = True,
                  message = ''Enrolled in course successfully'', payload = Some e'\<rparr>,
                 s\<lparr>enrollments := enrollments s @ [e']\<rparr>) \<and>
              student e' = u \<and> course e' = c \<and> progress e' = 0 \<and> isActive e' \<and>
              completedModules e' = [] \<and> eid e' \<notin> eid ` set (enrollments s)"
  proof (cases "Enrollment_findOne (enrollments s) u c")
    case None
    have "new_id (map eid (enrollments s)) \<notin> eid ` set (enrollments s)"
      using new_id_fresh [of "map eid (enrollments s)"] by simp
    then show ?thesis
      by (simp add: None enroll_create [OF assms None])
  next
    case (Some e)
    show ?thesis
    proof (cases "isActive e")
      case True
      then show ?thesis by (simp add: Some enroll_already [OF assms Some True])
    next
      case False
      have hook: "progress e \<le> 100 \<Longrightarrow>
        pre_save now (e\<lparr>isActive := True, startDate := now\<rparr>) =
        e\<lparr>isActive := True, startDate := now, lastAccessedAt := now,
          completionDate :=
            (if progress e = 100
             then (case completionDate e of None \<Rightarrow> Some now | Some t \<Rightarrow> Some t)
             else None)\<rparr>"
        by (cases "completionDate e") (auto simp: pre_save_def Let_def)
      show ?thesis
        using False hook
        by (auto simp: Some enroll_reactivate [OF assms Some False])
    qed
  qed
qed

theorem enroll_three_way_witness:
  "Course_findById (courses sample_db) 3 = Some \<lparr>course_id = 3, course_isActive = True\<rparr> \<and>
   unique_indexes (enrollments sample_db) \<and>
   enrollments_post sample_db 6 (Some 3) 900 =
     (failure 400 ''Already enrolled in this course'', sample_db) \<and>
   enrollments_post sample_db 2 (Some 3) 900 =
     (\<lparr>status = 200, success = True, message = ''Re-enrolled in course successfully'',
       payload = Some (inactive_enrollment\<lparr>isActive := True, startDate := 900,
                         lastAccessedAt := 900\<rparr>)\<rparr>,
      sample_db\<lparr>enrollments :=
        [sample_enrollment,
         inactive_enrollment\<lparr>isActive := True, startDate := 900, lastAccessedAt := 900\<rparr>]\<rparr>) \<and>
   (\<exists>e'. enrollments_post sample_db 5 (Some 3) 900 =
       (\<lparr>status = 201, success = True, message = ''Enrolled in course successfully'',
         payload = Some e'\<rparr>,
        sample_db\<lparr>enrollments := [sample_enrollment, inactive_enrollment, e']\<rparr>) \<and>
       progress e' = 0 \<and> isActive e') \<and>
   unique_indexes (enrollments (snd (enrollments_post sample_db 2 (Some 3) 900)))"
proof -
  have co: "Course_findById (courses sample_db) 3 = Some \<lparr>course_id = 3, course_isActive = True\<rparr>"
    by (simp add: Course_findById_def sample_db_def)
  have act: "course_isActive \<lparr>course_id = 3, course_isActive = True\<rparr>" by simp
  have es: "enrollments sample_db = [sample_enrollment, inactive_enrollment]"
    by (simp add: sample_db_def)
  have ui: "unique_indexes (enrollments sample_db)"
    by (simp add: es unique_indexes_def sample_enrollment_def inactive_enrollment_def)
  have f1: "Enrollment_findOne (enrollments sample_db) 6 3 = Some sample_enrollment"
    and f2: "Enrollment_findOne (enrollments sample_db) 2 3 = Some inactive_enrollment"
    and f5: "Enrollment_findOne (enrollments sample_db) 5 3 = None"
    by (simp_all add: es Enrollment_findOne_def sample_enrollment_def inactive_enrollment_def)
  have a1: "isActive sample_enrollment" by (simp add: sample_enrollment_def)
  have a2: "\<not> isActive inactive_enrollment" "0 \<le> progress inactive_enrollment"
    "progress inactive_enrollment \<le> 100"
    "eid sample_enrollment \<noteq> eid inactive_enrollment"
    "progress inactive_enrollment = 100" "completionDate inactive_enrollment = Some 350"
    by (simp_all add: sample_enrollment_def inactive_enrollment_def)
  have upd: "inactive_enrollment\<lparr>isActive := True, startDate := 900, lastAccessedAt := 900,
       completionDate := Some 350\<rparr> =
     inactive_enrollment\<lparr>isActive := True, startDate := 900, lastAccessedAt := 900\<rparr>"
    by (simp add: inactive_enrollment_def)
  have r1: "enrollments_post sample_db 6 (Some 3) 900 =
     (failure 400 ''Already enrolled in this course'', sample_db)"
    using enroll_three_way [OF co act, of 6 900] unfolding f1 by (simp add: a1)
  have r2: "enrollments_post sample_db 2 (Some 3) 900 =
     (\<lparr>status = 200, success = True, message = ''Re-enrolled in course successfully'',
       payload = Some (inactive_enrollment\<lparr>isActive := True, startDate := 900,
                         lastAccessedAt := 900\<rparr>)\<rparr>,
      sample_db\<lparr>enrollments :=
        [sample_enrollment,
         inactive_enrollment\<lparr>isActive := True, startDate := 900, lastAccessedAt := 900\<rparr>]\<rparr>)"
    using enroll_three_way [OF co act, of 2 900] unfolding f2 by (simp add: a2 es upd)
  have r5: "\<exists>e'. enrollments_post sample_db 5 (Some 3) 900 =
       (\<lparr>status = 201, success = True, message = ''Enrolled in course successfully'',
         payload = Some e'\<rparr>,
        sample_db\<lparr>enrollments := [sample_enrollment, inactive_enrollment, e']\<rparr>) \<and>
       progress e' = 0 \<and> isActive e'"
    using enroll_three_way [OF co act, of 5 900] unfolding f5 by (auto simp: es)
  have u2: "unique_indexes (enrollments (snd (enrollments_post sample_db 2 (Some 3) 900)))"
    using enroll_three_way [OF co act, of 2 900] ui by blast
  from co ui r1 r2 r5 u2 show ?thesis by (intro conjI)
qed

section \<open>A lost enrollment race\<close>

text \<open>
  Claim C9, as the handler has it.  When the lookup found no enrollment and the
  insert is rejected for the unique index on (student, course), another request
  having inserted the pair in between, the request is answered by the
  \<open>catch\<close> block: 500 with the message \<open>Server error\<close>, the status of the
  Internal outcome and not one of Conflict, and this request stores nothing.
\<close>

theorem enroll_lost_race_is_internal:
  assumes "Course_findById (courses s) c = Some co" "course_isActive co"
    "Enrollment_findOne (enrollments s) u c = None"
    "Enrollment_create now u c (enrollments s @ meanwhile) = Inl DuplicateKey"
  shows "enrollments_post_concurrent meanwhile s u (Some c) now =
           (failure 500 ''Server error'', s\<lparr>enrollments := enrollments s @ meanwhile\<rparr>) \<and>
         status (fst (enrollments_post_concurrent meanwhile s u (Some c) now))
           \<in> outcome_status Internal \<and>
         status (fst (enrollments_post_concurrent meanwhile s u (Some c) now))
           \<notin> outcome_status Conflict"
  using assms
  by (simp add: enrollments_post_concurrent_def Let_def server_error_def)

theorem enroll_lost_race_is_internal_witness:
  "Course_findById (courses sample_db) 3 = Some \<lparr>course_id = 3, course_isActive = True\<rparr> \<and>
   Enrollment_findOne (enrollments sample_db) 5 3 = None \<and>
   Enrollment_create 900 5 3 (enrollments sample_db @ [race_winner]) = Inl DuplicateKey \<and>
   enrollments_post_concurrent [race_winner] sample_db 5 (Some 3) 900 =
     (failure 500 ''Server error'',
      sample_db\<lparr>enrollments := enrollments sample_db @ [race_winner]\<rparr>)"
proof -
  have co: "Course_findById (courses sample_db) 3 = Some \<lparr>course_id = 3, course_isActive = True\<rparr>"
    by (simp add: Course_findById_def sample_db_def)
  have act: "course_isActive \<lparr>course_id = 3, course_isActive = True\<rparr>" by simp
  have f5: "Enrollment_findOne (enrollments sample_db) 5 3 = None"
    by (simp add: sample_db_def Enrollment_findOne_def sample_enrollment_def
        inactive_enrollment_def)
  have dup: "Enrollment_create 900 5 3 (enrollments sample_db @ [race_winner]) = Inl DuplicateKey"
    by (simp add: Enrollment_create_def Enrollment_validate_def Let_def race_winner_def)
  from enroll_lost_race_is_internal [OF co act f5 dup] co f5 dup show ?thesis by blast
qed

theorem enroll_lost_race_not_conflict:
  "Enrollment_create 900 5 3 (enrollments sample_db @ [race_winner]) = Inl DuplicateKey \<and>
   status (fst (enrollments_post_concurrent [race_winner] sample_db 5 (Some 3) 900)) = 500 \<and>
   status (fst (enrollments_post_concurrent [race_winner] sample_db 5 (Some 3) 900))
     \<notin> outcome_status Conflict"
  by (simp add: enrollments_post_concurrent_def Let_def server_error_def failure_def
      Enrollment_create_def Enrollment_validate_def race_winner_def
      Course_findById_def sample_db_def Enrollment_findOne_def sample_enrollment_def
      inactive_enrollment_def)


section \<open>Creating a review\<close>

lemma Review_findOne_None:
  "Review_findOne rs u c = None \<longleftrightarrow>
   \<not> (\<exists>rv \<in> set rs. rev_student rv = u \<and> rev_course rv = c)"
  by (auto simp: Review_findOne_def find_None_iff)

lemma Review_findById_append_new:
  "rid rv \<notin> rid ` set rs \<Longrightarrow> Review_findById (rs @ [rv]) (rid rv) = Some rv"
  by (induction rs) (auto simp: Review_findById_def)

lemma active_enrollment_None:
  "find (\<lambda>d. student d = u \<and> course d = c \<and> isActive d) es = None \<longleftrightarrow>
   \<not> (\<exists>e \<in> set es. student e = u \<and> course e = c \<and> isActive e)"
  by (auto simp: find_None_iff)

lemma reviews_post_created:
  assumes "Course_findById (courses s) c = Some co" "course_isActive co"
    "\<exists>e \<in> set (enrollments s). student e = u \<and> course e = c \<and> isActive e"
    "\<not> (\<exists>rv \<in> set (reviews s). rev_student rv = u \<and> rev_course rv = c)"
  shows "reviews_post s u c r cm =
    (\<lparr>status = 201, success = True, message = ''Review created successfully'',
      payload = Some \<lparr>rid = new_id (map rid (reviews s)), rev_student = u, rev_course = c,
                 rating = r, comment = cm, isApproved = True, helpfulVotes = 0,
                 reportedBy = []\<rparr>\<rparr>,
     s\<lparr>reviews := reviews s @
         [\<lparr>rid = new_id (map rid (reviews s)), rev_student = u, rev_course = c,
                 rating = r, comment = cm, isApproved = True, helpfulVotes = 0,
                 reportedBy = []\<rparr>]\<rparr>)"
proof -
  let ?rv = "\<lparr>rid = new_id (map rid (reviews s)), rev_student = u, rev_course = c,
                 rating = r, comment = cm, isApproved = True, helpfulVotes = 0,
                 reportedBy = []\<rparr>"
  have "rid ?rv \<notin> rid ` set (reviews s)"
    using new_id_fresh [of "map rid (reviews s)"] by simp
  from Review_findById_append_new [OF this]
  have fb: "Review_findById (reviews s @ [?rv]) (new_id (map rid (reviews s))) = Some ?rv"
    by simp
  from assms(3) obtain e where
    "find (\<lambda>d. student d = u \<and> course d = c \<and> isActive d) (enrollments s) = Some e"
    using active_enrollment_None [of u c "enrollments s"] by (cases "find (\<lambda>d. student d = u \<and> course d = c \<and> isActive d) (enrollments s)") auto
  moreover have "Review_findOne (reviews s) u c = None"
    using assms(4) by (simp add: Review_findOne_None)
  ultimately show ?thesis
    using assms(1,2) fb by (simp add: reviews_post_def Review_create_def Let_def)
qed

lemma reviews_post_not_found:
  assumes "\<not> (\<exists>co. Course_findById (courses s) c = Some co \<and> course_isActive co)"
  shows "reviews_post s u c r cm = (failure 404 ''Course not found'', s)"
  using assms by (auto simp: reviews_post_def split: option.splits)

lemma reviews_post_not_enrolled:
  assumes "Course_findById (courses s) c = Some co" "course_isActive co"
    "\<not> (\<exists>e \<in> set (enrollments s). student e = u \<and> course e = c \<and> isActive e)"
  shows "reviews_post s u c r cm =
    (failure 400 ''You must be enrolled in this course to leave a review'', s)"
proof -
  have "find (\<lambda>d. student d = u \<and> course d = c \<and> isActive d) (enrollments s) = None"
    using assms(3) by (simp add: active_enrollment_None)
  with assms(1,2) show ?thesis by (simp add: reviews_post_def)
qed

lemma reviews_post_duplicate:
  assumes "Course_findById (courses s) c = Some co" "course_isActive co"
    "\<exists>e \<in> set (enrollments s). student e = u \<and> course e = c \<and> isActive e"
    "\<exists>rv \<in> set (reviews s). rev_student rv = u \<and> rev_course rv = c"
  shows "reviews_post s u c r cm = (failure 400 ''You have already reviewed this course'', s)"
proof -
  from assms(3) obtain e where
    "find (\<lambda>d. student d = u \<and> course d = c \<and> isActive d) (enrollments s) = Some e"
    using active_enrollment_None [of u c "enrollments s"] by (cases "find (\<lambda>d. student d = u \<and> course d = c \<and> isActive d) (enrollments s)") auto
  moreover from assms(4) obtain x where "Review_findOne (reviews s) u c = Some x"
    using Review_findOne_None [of "reviews s" u c] by (cases "Review_findOne (reviews s) u c") auto
  ultimately show ?thesis
    using assms(1,2) by (simp add: reviews_post_def)
qed

text \<open>
  Claim C5.  The review handler answers 201 exactly when the course is found and
  active, the requester has an active enrollment in it and has no review of it yet.
  A course that is missing or inactive gives 404, a missing active enrollment 400
  with the message of the enrollment, an existing review 400 with the message of
  the duplicate, and each of the three returns the database as it was.  On 201 the
  collection has one more review, the requester's for the course with the rating
  and comment sent, approved, with no helpful vote and no report, and a second
  request of the same student for the same course is then answered as a
  duplicate.
\<close>

theorem create_review_cases:
  "((status (fst (reviews_post s u c r cm)) = 201) =
      ((\<exists>co. Course_findById (courses s) c = Some co \<and> course_isActive co) \<and>
       (\<exists>e \<in> set (enrollments s). student e = u \<and> course e = c \<and> isActive e) \<and>
       \<not> (\<exists>rv \<in> set (reviews s). rev_student rv = u \<and> rev_course rv = c)))
   \<and> (\<not> (\<exists>co. Course_findById (courses s) c = Some co \<and> course_isActive co) \<longrightarrow>
        reviews_post s u c r cm = (failure 404 ''Course not found'', s))
   \<and> ((\<exists>co. Course_findById (courses s) c = Some co \<and> course_isActive co) \<and>
       \<not> (\<exists>e \<in> set (enrollments s). student e = u \<and> course e = c \<and> isActive e) \<longrightarrow>
        reviews_post s u c r cm =
          (failure 400 ''You must be enrolled in this course to leave a review'', s))
   \<and> ((\<exists>co. Course_findById (courses s) c = Some co \<and> course_isActive co) \<and>
       (\<exists>e \<in> set (enrollments s). student e = u \<and> course e = c \<and> isActive e) \<and>
       (\<exists>rv \<in> set (reviews s). rev_student rv = u \<and> rev_course rv = c) \<longrightarrow>
        reviews_post s u c r cm =
          (failure 400 ''You have already reviewed this course'', s))
   \<and> (status (fst (reviews_post s u c r cm)) = 201 \<longrightarrow>
        (\<exists>rv. snd (reviews_post s u c r cm) = s\<lparr>reviews := reviews s @ [rv]\<rparr> \<and>
              payload (fst (reviews_post s u c r cm)) = Some rv \<and>
              rev_student rv = u \<and> rev_course rv = c \<and> rating rv = r \<and> comment rv = cm \<and>
              isApproved rv \<and> helpfulVotes rv = 0 \<and> reportedBy rv = [] \<and>
              rid rv \<notin> rid ` set (reviews s)) \<and>
        reviews_post (snd (reviews_post s u c r cm)) u c r2 cm2 =
          (failure 400 ''You have already reviewed this course'',
           snd (reviews_post s u c r cm)))"
proof -
  let ?C = "\<exists>co. Course_findById (courses s) c = Some co \<and> course_isActive co"
  let ?E = "\<exists>e \<in> set (enrollments s). student e = u \<and> course e = c \<and> isActive e"
  let ?R = "\<exists>rv \<in> set (reviews s). rev_student rv = u \<and> rev_course rv = c"
  let ?rv = "\<lparr>rid = new_id (map rid (reviews s)), rev_student = u, rev_course = c,
                 rating = r, comment = cm, isApproved = True, helpfulVotes = 0,
                 reportedBy = []\<rparr>"
  have nf: "\<not> ?C \<Longrightarrow> reviews_post s u c r cm = (failure 404 ''Course not found'', s)"
    by (rule reviews_post_not_found)
  have ne: "?C \<Longrightarrow> \<not> ?E \<Longrightarrow> reviews_post s u c r cm =
          (failure 400 ''You must be enrolled in this course to leave a review'', s)"
    using reviews_post_not_enrolled by blast
  have du: "?C \<Longrightarrow> ?E \<Longrightarrow> ?R \<Longrightarrow> reviews_post s u c r cm =
          (failure 400 ''You have already reviewed this course'', s)"
    using reviews_post_duplicate by blast
  have ok: "?C \<Longrightarrow> ?E \<Longrightarrow> \<not> ?R \<Longrightarrow> reviews_post s u c r cm =
    (\<lparr>status = 201, success = True, message = ''Review created successfully'',
      payload = Some ?rv\<rparr>, s\<lparr>reviews := reviews s @ [?rv]\<rparr>)"
    using reviews_post_created by blast
  have iff: "(status (fst (reviews_post s u c r cm)) = 201) = (?C \<and> ?E \<and> \<not> ?R)"
  proof (cases "?C \<and> ?E \<and> \<not> ?R")
    case True
    then show ?thesis using ok by simp
  next
    case False
    then have "status (fst (reviews_post s u c r cm)) \<in> {404, 400}"
      using nf ne du by (cases ?C; cases ?E; cases ?R) simp_all
    with False show ?thesis by auto
  qed
  have created: "status (fst (reviews_post s u c r cm)) = 201 \<Longrightarrow>
        (\<exists>rv. snd (reviews_post s u c r cm) = s\<lparr>reviews := reviews s @ [rv]\<rparr> \<and>
              payload (fst (reviews_post s u c r cm)) = Some rv \<and>
              rev_student rv = u \<and> rev_course rv = c \<and> rating rv = r \<and> comment rv = cm \<and>
              isApproved rv \<and> helpfulVotes rv = 0 \<and> reportedBy rv = [] \<and>
              rid rv \<notin> rid ` set (reviews s)) \<and>
        reviews_post (snd (reviews_post s u c r cm)) u c r2 cm2 =
          (failure 400 ''You have already reviewed this course'',
           snd (reviews_post s u c r cm))"
  proof -
    assume "status (fst (reviews_post s u c r cm)) = 201"
    with iff have c: ?C and e: ?E and nr: "\<not> ?R" by blast+
    have res: "reviews_post s u c r cm =
      (\<lparr>status = 201, success = True, message = ''Review created successfully'',
        payload = Some ?rv\<rparr>, s\<lparr>reviews := reviews s @ [?rv]\<rparr>)"
      using ok c e nr by blast
    have fresh: "rid ?rv \<notin> rid ` set (reviews s)"
      using new_id_fresh [of "map rid (reviews s)"] by simp
    let ?s' = "s\<lparr>reviews := reviews s @ [?rv]\<rparr>"
    from c obtain co where co: "Course_findById (courses ?s') c = Some co" "course_isActive co"
      by auto
    have e': "\<exists>e \<in> set (enrollments ?s'). student e = u \<and> course e = c \<and> isActive e"
      using e by simp
    have r': "\<exists>rv \<in> set (reviews ?s'). rev_student rv = u \<and> rev_course rv = c"
      by simp
    have again: "reviews_post ?s' u c r2 cm2 =
      (failure 400 ''You have already reviewed this course'', ?s')"
      by (rule reviews_post_duplicate [OF co e' r'])
    show ?thesis
      unfolding res using fresh again by simp
  qed
  from iff nf ne du created show ?thesis by blast
qed

theorem create_review_cases_witness:
  "reviews_post sample_db 6 4 5 ''A clear and useful course'' =
     (failure 404 ''Course not found'', sample_db) \<and>
   reviews_post sample_db 2 3 5 ''A clear and useful course'' =
     (failure 400 ''You must be enrolled in this course to leave a review'', sample_db) \<and>
   reviews_post sample_db 6 3 5 ''A clear and useful course'' =
     (failure 400 ''You have already reviewed this course'', sample_db) \<and>
   status (fst (reviews_post (sample_db\<lparr>reviews := []\<rparr>) 6 3 5
                  ''A clear and useful course'')) = 201 \<and>
   (\<exists>rv. snd (reviews_post (sample_db\<lparr>reviews := []\<rparr>) 6 3 5 ''A clear and useful course'')
           = sample_db\<lparr>reviews := [rv]\<rparr> \<and>
         rev_student rv = 6 \<and> rev_course rv = 3 \<and> rating rv = 5 \<and>
         isApproved rv \<and> helpfulVotes rv = 0 \<and> reportedBy rv = [])"
proof -
  let ?cm = "''A clear and useful course''"
  have c3: "\<exists>co. Course_findById (courses sample_db) 3 = Some co \<and> course_isActive co"
    and c3': "\<exists>co. Course_findById (courses (sample_db\<lparr>reviews := []\<rparr>)) 3 = Some co
                \<and> course_isActive co"
    and c4: "\<not> (\<exists>co. Course_findById (courses sample_db) 4 = Some co \<and> course_isActive co)"
    by (simp_all add: Course_findById_def sample_db_def)
  have e6: "\<exists>e \<in> set (enrollments sample_db). student e = 6 \<and> course e = 3 \<and> isActive e"
    and e6': "\<exists>e \<in> set (enrollments (sample_db\<lparr>reviews := []\<rparr>)).
                student e = 6 \<and> course e = 3 \<and> isActive e"
    and e2: "\<not> (\<exists>e \<in> set (enrollments sample_db). student e = 2 \<and> course e = 3 \<and> isActive e)"
    by (simp_all add: sample_db_def sample_enrollment_def inactive_enrollment_def)
  have r6: "\<exists>rv \<in> set (reviews sample_db). rev_student rv = 6 \<and> rev_course rv = 3"
    by (simp add: sample_db_def sample_review_def)
  have r0: "\<not> (\<exists>rv \<in> set (reviews (sample_db\<lparr>reviews := []\<rparr>)).
                 rev_student rv = 6 \<and> rev_course rv = 3)"
    by simp
  note T1 = create_review_cases [of sample_db 6 4 5 ?cm]
  note T2 = create_review_cases [of sample_db 2 3 5 ?cm]
  note T3 = create_review_cases [of sample_db 6 3 5 ?cm]
  note T4 = create_review_cases [of "sample_db\<lparr>reviews := []\<rparr>" 6 3 5 ?cm 5 ?cm]
  have a1: "reviews_post sample_db 6 4 5 ?cm = (failure 404 ''Course not found'', sample_db)"
    using T1 [THEN conjunct2, THEN conjunct1] c4 by (rule mp)
  have a2: "reviews_post sample_db 2 3 5 ?cm =
     (failure 400 ''You must be enrolled in this course to leave a review'', sample_db)"
    using T2 [THEN conjunct2, THEN conjunct2, THEN conjunct1] c3 e2 by blast
  have a3: "reviews_post sample_db 6 3 5 ?cm =
     (failure 400 ''You have already reviewed this course'', sample_db)"
    using T3 [THEN conjunct2, THEN conjunct2, THEN conjunct2, THEN conjunct1] c3 e6 r6 by blast
  have a4: "status (fst (reviews_post (sample_db\<lparr>reviews := []\<rparr>) 6 3 5 ?cm)) = 201"
    using T4 [THEN conjunct1] c3' e6' r0 by blast
  have a5: "\<exists>rv. snd (reviews_post (sample_db\<lparr>reviews := []\<rparr>) 6 3 5 ?cm)
           = sample_db\<lparr>reviews := [rv]\<rparr> \<and>
         rev_student rv = 6 \<and> rev_course rv = 3 \<and> rating rv = 5 \<and>
         isApproved rv \<and> helpfulVotes rv = 0 \<and> reportedBy rv = []"
    using T4 [THEN conjunct2, THEN conjunct2, THEN conjunct2, THEN conjunct2] a4 by auto
  from a1 a2 a3 a4 a5 show ?thesis by (intro conjI)
qed

section \<open>Moderating a review\<close>

lemma Review_findById_rid: "Review_findById rs i = Some x \<Longrightarrow> rid x = i \<and> x \<in> set rs"
  by (auto simp: Review_findById_def find_Some_iff)

lemma Review_findById_saved:
  assumes "Review_findById rs i = Some x" "rid y = i"
  shows "Review_findById (Review_save y rs) i = Some y"
proof -
  have "find (\<lambda>d. rid d = i) (map (\<lambda>d. if rid d = i then y else d) rs) = Some y"
    using assms by (intro find_map_replace [where x = x])
      (auto simp: Review_findById_def find_Some_iff)
  with assms(2) show ?thesis by (simp add: Review_findById_def Review_save_def)
qed

text \<open>
  Claim C7.  Moderation of an existing review: \<open>approve\<close> stores it approved
  and with no report, \<open>reject\<close> stores it unapproved and with the reports it
  had, every other field being as before in both cases.  Any other action is
  answered with 400, whether the review exists or not, and the database is as it
  was.
\<close>

theorem moderate_cases:
  "(action \<noteq> ''approve'' \<and> action \<noteq> ''reject'' \<longrightarrow>
      admin_moderate s i action =
        (failure 400 ''Action must be either approve or reject'', s))
   \<and> (Review_findById (reviews s) i = Some rv \<longrightarrow>
        status (fst (admin_moderate s i ''approve'')) = 200 \<and>
        Review_findById (reviews (snd (admin_moderate s i ''approve''))) i =
          Some (rv\<lparr>isApproved := True, reportedBy := []\<rparr>) \<and>
        status (fst (admin_moderate s i ''reject'')) = 200 \<and>
        Review_findById (reviews (snd (admin_moderate s i ''reject''))) i =
          Some (rv\<lparr>isApproved := False\<rparr>) \<and>
        reportedBy (rv\<lparr>isApproved := False\<rparr>) = reportedBy rv)"
proof (intro conjI impI)
  assume "action \<noteq> ''approve'' \<and> action \<noteq> ''reject''"
  then show "admin_moderate s i action =
        (failure 400 ''Action must be either approve or reject'', s)"
    by (simp add: admin_moderate_def)
next
  assume f: "Review_findById (reviews s) i = Some rv"
  then have i: "rid rv = i" by (simp add: Review_findById_rid)
  show "status (fst (admin_moderate s i ''approve'')) = 200"
    and "status (fst (admin_moderate s i ''reject'')) = 200"
    using f by (simp_all add: admin_moderate_def Let_def)
  show "Review_findById (reviews (snd (admin_moderate s i ''approve''))) i =
          Some (rv\<lparr>isApproved := True, reportedBy := []\<rparr>)"
    using f i by (simp add: admin_moderate_def Let_def Review_findById_saved [OF f])
  show "Review_findById (reviews (snd (admin_moderate s i ''reject''))) i =
          Some (rv\<lparr>isApproved := False\<rparr>)"
    using f i by (simp add: admin_moderate_def Let_def Review_findById_saved [OF f])
  show "reportedBy (rv\<lparr>isApproved := False\<rparr>) = reportedBy rv" by simp
qed

theorem moderate_cases_witness:
  "''publish'' \<noteq> ''approve'' \<and> ''publish'' \<noteq> ''reject'' \<and>
   admin_moderate sample_db 20 ''publish'' =
     (failure 400 ''Action must be either approve or reject'', sample_db) \<and>
   Review_findById (reviews sample_db) 20 = Some sample_review \<and>
   Review_findById (reviews (snd (admin_moderate sample_db 20 ''approve''))) 20 =
     Some \<lparr>rid = 20, rev_student = 6, rev_course = 3, rating = 5,
           comment = ''Excellent course'', isApproved = True, helpfulVotes = 2,
           reportedBy = []\<rparr> \<and>
   Review_findById (reviews (snd (admin_moderate sample_db 20 ''reject''))) 20 =
     Some \<lparr>rid = 20, rev_student = 6, rev_course = 3, rating = 5,
           comment = ''Excellent course'', isApproved = False, helpfulVotes = 2,
           reportedBy = [\<lparr>user = 2, reason = ''spam'', reportedAt = 700\<rparr>]\<rparr>"
proof -
  have n: "''publish'' \<noteq> ''approve'' \<and> ''publish'' \<noteq> ''reject''" by simp
  have f: "Review_findById (reviews sample_db) 20 = Some sample_review"
    by (simp add: Review_findById_def sample_db_def sample_review_def)
  note T = moderate_cases [of "''publish''" sample_db 20 sample_review]
  have a: "admin_moderate sample_db 20 ''publish'' =
     (failure 400 ''Action must be either approve or reject'', sample_db)"
    using T [THEN conjunct1] n by (rule mp)
  have b: "status (fst (admin_moderate sample_db 20 ''approve'')) = 200 \<and>
        Review_findById (reviews (snd (admin_moderate sample_db 20 ''approve''))) 20 =
          Some (sample_review\<lparr>isApproved := True, reportedBy := []\<rparr>) \<and>
        status (fst (admin_moderate sample_db 20 ''reject'')) = 200 \<and>
        Review_findById (reviews (snd (admin_moderate sample_db 20 ''reject''))) 20 =
          Some (sample_review\<lparr>isApproved := False\<rparr>) \<and>
        reportedBy (sample_review\<lparr>isApproved := False\<rparr>) = reportedBy sample_review"
    using T [THEN conjunct2] f by (rule mp)
  have v: "sample_review\<lparr>isApproved := True, reportedBy := []\<rparr> =
      \<lparr>rid = 20, rev_student = 6, rev_course = 3, rating = 5,
           comment = ''Excellent course'', isApproved = True, helpfulVotes = 2,
           reportedBy = []\<rparr>"
    "sample_review\<lparr>isApproved := False\<rparr> =
     \<lparr>rid = 20, rev_student = 6, rev_course = 3, rating = 5,
           comment = ''Excellent course'', isApproved = False, helpfulVotes = 2,
           reportedBy = [\<lparr>user = 2, reason = ''spam'', reportedAt = 700\<rparr>]\<rparr>"
    by (simp_all add: sample_review_def)
  from n a f b [unfolded v] show ?thesis by blast
qed


section \<open>Reporting a review\<close>

lemma report_user_None:
  "find (\<lambda>rep. user rep = u) reps = None \<longleftrightarrow> u \<notin> user ` set reps"
  by (auto simp: find_None_iff)

lemma reviews_report_no_reason:
  "reviews_report s u i None now = (failure 400 ''Report reason is required'', s)"
  by (simp add: reviews_report_def)

lemma trim_Nil [simp]: "trim [] = []"
  by (simp add: trim_def)

lemma reviews_report_blank:
  "trim r = [] \<Longrightarrow>
   reviews_report s u i (Some r) now = (failure 400 ''Report reason is required'', s)"
  by (simp add: reviews_report_def)

lemma reviews_report_again:
  assumes "trim r \<noteq> []" "Review_findById (reviews s) i = Some rv"
    "u \<in> user ` set (reportedBy rv)"
  shows "reviews_report s u i (Some r) now =
     (failure 400 ''You have already reported this review'', s)"
proof -
  from assms(3) obtain x where "find (\<lambda>rep. user rep = u) (reportedBy rv) = Some x"
    using report_user_None [of u "reportedBy rv"]
    by (cases "find (\<lambda>rep. user rep = u) (reportedBy rv)") auto
  moreover from assms(1) have "r \<noteq> []" by auto
  ultimately show ?thesis using assms(1,2) by (simp add: reviews_report_def)
qed

lemma reviews_report_added:
  assumes "trim r \<noteq> []" "Review_findById (reviews s) i = Some rv"
    "u \<notin> user ` set (reportedBy rv)"
  shows "reviews_report s u i (Some r) now =
     (\<lparr>status = 200, success = True, message = ''Review reported successfully'',
       payload = None\<rparr>,
      s\<lparr>reviews := Review_save
          (rv\<lparr>reportedBy := reportedBy rv @
              [\<lparr>user = u, reason = trim r, reportedAt = now\<rparr>]\<rparr>) (reviews s)\<rparr>)"
proof -
  from assms(3) have "find (\<lambda>rep. user rep = u) (reportedBy rv) = None"
    by (simp add: report_user_None)
  moreover from assms(1) have "r \<noteq> []" by auto
  ultimately show ?thesis using assms(1,2) by (simp add: reviews_report_def)
qed

lemma reviews_report_fails_unchanged:
  "status (fst (reviews_report s u i reason_in now)) \<noteq> 200 \<Longrightarrow>
   snd (reviews_report s u i reason_in now) = s"
  by (auto simp: reviews_report_def split: option.splits if_splits)

lemma reviews_report_distinct:
  assumes "\<forall>d \<in> set (reviews s). distinct (map user (reportedBy d))"
  shows "\<forall>d \<in> set (reviews (snd (reviews_report s u i reason_in now))).
           distinct (map user (reportedBy d))"
proof (cases "status (fst (reviews_report s u i reason_in now)) = 200")
  case False
  with assms show ?thesis by (simp add: reviews_report_fails_unchanged)
next
  case True
  then obtain r rv where r: "reason_in = Some r" "trim r \<noteq> []"
    and rv: "Review_findById (reviews s) i = Some rv" "u \<notin> user ` set (reportedBy rv)"
    by (auto simp: reviews_report_def report_user_None split: option.splits if_splits)
  have "rv \<in> set (reviews s)" using rv(1) by (simp add: Review_findById_rid)
  with assms have "distinct (map user (reportedBy rv))" by blast
  with rv(2) have "distinct (map user (reportedBy rv @
      [\<lparr>user = u, reason = trim r, reportedAt = now\<rparr>]))" by simp
  with assms show ?thesis
    unfolding r(1) by (auto simp: reviews_report_added [OF r(2) rv] Review_save_def)
qed

text \<open>
  Claim C8.  A report with no reason, or with a reason that is empty once trimmed,
  is answered with 400 and changes nothing.  On an existing review, a report by a
  user who has an entry in \<open>reportedBy\<close> is answered with 400 and changes
  nothing; a report by any other user is answered with 200 and appends one entry,
  the user with the trimmed reason, after which every further report of that user
  on that review is answered with 400 and changes nothing.  If no review of the
  collection has two reports of one user, none has afterwards.
\<close>

theorem report_review_cases:
  "reviews_report s u i None now = (failure 400 ''Report reason is required'', s)
   \<and> (trim r = [] \<longrightarrow>
        reviews_report s u i (Some r) now = (failure 400 ''Report reason is required'', s))
   \<and> (trim r \<noteq> [] \<and> Review_findById (reviews s) i = Some rv \<and>
       u \<in> user ` set (reportedBy rv) \<longrightarrow>
        reviews_report s u i (Some r) now =
          (failure 400 ''You have already reported this review'', s))
   \<and> (trim r \<noteq> [] \<and> Review_findById (reviews s) i = Some rv \<and>
       u \<notin> user ` set (reportedBy rv) \<longrightarrow>
        status (fst (reviews_report s u i (Some r) now)) = 200 \<and>
        Review_findById (reviews (snd (reviews_report s u i (Some r) now))) i =
          Some (rv\<lparr>reportedBy := reportedBy rv @
                  [\<lparr>user = u, reason = trim r, reportedAt = now\<rparr>]\<rparr>) \<and>
        status (fst (reviews_report (snd (reviews_report s u i (Some r) now)) u i
                       reason2 now2)) = 400 \<and>
        snd (reviews_report (snd (reviews_report s u i (Some r) now)) u i reason2 now2) =
          snd (reviews_report s u i (Some r) now))
   \<and> ((\<forall>d \<in> set (reviews s). distinct (map user (reportedBy d))) \<longrightarrow>
        (\<forall>d \<in> set (reviews (snd (reviews_report s u i reason_in now))).
            distinct (map user (reportedBy d))))"
proof (intro conjI impI)
  show "reviews_report s u i None now = (failure 400 ''Report reason is required'', s)"
    by (rule reviews_report_no_reason)
next
  assume "trim r = []"
  then show "reviews_report s u i (Some r) now =
      (failure 400 ''Report reason is required'', s)"
    by (rule reviews_report_blank)
next
  assume "trim r \<noteq> [] \<and> Review_findById (reviews s) i = Some rv \<and>
       u \<in> user ` set (reportedBy rv)"
  then show "reviews_report s u i (Some r) now =
          (failure 400 ''You have already reported this review'', s)"
    using reviews_report_again by blast
next
  assume "\<forall>d \<in> set (reviews s). distinct (map user (reportedBy d))"
  then show "\<forall>d \<in> set (reviews (snd (reviews_report s u i reason_in now))).
            distinct (map user (reportedBy d))"
    by (rule reviews_report_distinct)
next
  assume a: "trim r \<noteq> [] \<and> Review_findById (reviews s) i = Some rv \<and>
       u \<notin> user ` set (reportedBy rv)"
  then have r: "trim r \<noteq> []" and f: "Review_findById (reviews s) i = Some rv"
    and n: "u \<notin> user ` set (reportedBy rv)" by blast+
  let ?rv = "rv\<lparr>reportedBy := reportedBy rv @
                  [\<lparr>user = u, reason = trim r, reportedAt = now\<rparr>]\<rparr>"
  let ?s' = "snd (reviews_report s u i (Some r) now)"
  have i: "rid rv = i" using f by (simp add: Review_findById_rid)
  have res: "reviews_report s u i (Some r) now =
     (\<lparr>status = 200, success = True, message = ''Review reported successfully'',
       payload = None\<rparr>, s\<lparr>reviews := Review_save ?rv (reviews s)\<rparr>)"
    by (rule reviews_report_added [OF r f n])
  show st: "status (fst (reviews_report s u i (Some r) now)) = 200"
    by (simp add: res)
  show f': "Review_findById (reviews ?s') i = Some ?rv"
    using i by (simp add: res Review_findById_saved [OF f])
  have u': "u \<in> user ` set (reportedBy ?rv)" by simp
  have second: "reviews_report ?s' u i reason2 now2 =
      (failure 400 (if reason2 = None \<or> trim (the reason2) = []
                    then ''Report reason is required''
                    else ''You have already reported this review''), ?s')"
  proof (cases reason2)
    case None
    then show ?thesis by (simp add: reviews_report_no_reason)
  next
    case (Some r2)
    show ?thesis
    proof (cases "trim r2 = []")
      case True
      then show ?thesis by (simp add: Some reviews_report_blank)
    next
      case False
      then show ?thesis
        by (simp add: Some reviews_report_again [OF False f' u'])
    qed
  qed
  show "status (fst (reviews_report ?s' u i reason2 now2)) = 400"
    by (simp add: second)
  show "snd (reviews_report ?s' u i reason2 now2) = ?s'"
    by (simp add: second)
qed

theorem report_review_cases_witness:
  "trim ''   '' = [] \<and>
   reviews_report sample_db 9 20 (Some ''   '') 900 =
     (failure 400 ''Report reason is required'', sample_db) \<and>
   trim '' rude  '' = ''rude'' \<and>
   Review_findById (reviews sample_db) 20 = Some sample_review \<and>
   user ` set (reportedBy sample_review) = {2} \<and>
   reviews_report sample_db 2 20 (Some '' rude  '') 900 =
     (failure 400 ''You have already reported this review'', sample_db) \<and>
   status (fst (reviews_report sample_db 9 20 (Some '' rude  '') 900)) = 200 \<and>
   Review_findById (reviews (snd (reviews_report sample_db 9 20 (Some '' rude  '') 900))) 20 =
     Some (sample_review\<lparr>reportedBy :=
             [\<lparr>user = 2, reason = ''spam'', reportedAt = 700\<rparr>,
              \<lparr>user = 9, reason = ''rude'', reportedAt = 900\<rparr>]\<rparr>) \<and>
   status (fst (reviews_report (snd (reviews_report sample_db 9 20 (Some '' rude  '') 900))
                  9 20 (Some ''again'') 950)) = 400 \<and>
   snd (reviews_report (snd (reviews_report sample_db 9 20 (Some '' rude  '') 900))
          9 20 (Some ''again'') 950) =
     snd (reviews_report sample_db 9 20 (Some '' rude  '') 900) \<and>
   distinct (map user (reportedBy sample_review)) \<and>
   list_all (\<lambda>d. distinct (map user (reportedBy d)))
     (reviews (snd (reviews_report sample_db 9 20 (Some '' rude  '') 900)))"
proof -
  have t0: "trim ''   '' = []" and t1: "trim '' rude  '' = ''rude''"
    and t1': "trim '' rude  '' \<noteq> []"
    by (simp_all add: trim_def is_space_def)
  have f: "Review_findById (reviews sample_db) 20 = Some sample_review"
    by (simp add: Review_findById_def sample_db_def sample_review_def)
  have us: "user ` set (reportedBy sample_review) = {2}"
    and rb: "reportedBy sample_review = [\<lparr>user = 2, reason = ''spam'', reportedAt = 700\<rparr>]"
    and ds: "distinct (map user (reportedBy sample_review))"
    by (simp_all add: sample_review_def)
  have in2: "2 \<in> user ` set (reportedBy sample_review)"
    and out9: "9 \<notin> user ` set (reportedBy sample_review)"
    by (simp_all add: us)
  have inv: "\<forall>d \<in> set (reviews sample_db). distinct (map user (reportedBy d))"
    by (simp add: sample_db_def ds)
  note T0 = report_review_cases [where r = "''   ''" and s = sample_db and u = 9 and i = 20
      and now = 900]
  note T2 = report_review_cases [where r = "'' rude  ''" and s = sample_db and u = 2
      and i = 20 and now = 900 and rv = sample_review]
  note T9 = report_review_cases [where r = "'' rude  ''" and s = sample_db and u = 9
      and i = 20 and now = 900 and rv = sample_review and ?reason2.0 = "Some ''again''"
      and ?now2.0 = 950 and reason_in = "Some '' rude  ''"]
  have a0: "reviews_report sample_db 9 20 (Some ''   '') 900 =
     (failure 400 ''Report reason is required'', sample_db)"
    using T0 [THEN conjunct2, THEN conjunct1] t0 by (rule mp)
  have a2: "reviews_report sample_db 2 20 (Some '' rude  '') 900 =
     (failure 400 ''You have already reported this review'', sample_db)"
    using T2 [THEN conjunct2, THEN conjunct2, THEN conjunct1] t1' f in2 by blast
  have a9: "status (fst (reviews_report sample_db 9 20 (Some '' rude  '') 900)) = 200 \<and>
        Review_findById (reviews (snd (reviews_report sample_db 9 20 (Some '' rude  '') 900))) 20 =
          Some (sample_review\<lparr>reportedBy := reportedBy sample_review @
                  [\<lparr>user = 9, reason = trim '' rude  '', reportedAt = 900\<rparr>]\<rparr>) \<and>
        status (fst (reviews_report (snd (reviews_report sample_db 9 20 (Some '' rude  '') 900))
                       9 20 (Some ''again'') 950)) = 400 \<and>
        snd (reviews_report (snd (reviews_report sample_db 9 20 (Some '' rude  '') 900)) 9 20
               (Some ''again'') 950) =
          snd (reviews_report sample_db 9 20 (Some '' rude  '') 900)"
    using T9 [THEN conjunct2, THEN conjunct2, THEN conjunct2, THEN conjunct1] t1' f out9
    by blast
  have a9': "sample_review\<lparr>reportedBy := reportedBy sample_review @
                  [\<lparr>user = 9, reason = trim '' rude  '', reportedAt = 900\<rparr>]\<rparr> =
     sample_review\<lparr>reportedBy :=
             [\<lparr>user = 2, reason = ''spam'', reportedAt = 700\<rparr>,
              \<lparr>user = 9, reason = ''rude'', reportedAt = 900\<rparr>]\<rparr>"
    by (simp add: rb t1)
  have ai: "\<forall>d \<in> set (reviews (snd (reviews_report sample_db 9 20 (Some '' rude  '') 900))).
            distinct (map user (reportedBy d))"
    using T9 [THEN conjunct2, THEN conjunct2, THEN conjunct2, THEN conjunct2] inv by (rule mp)
  then have al: "list_all (\<lambda>d. distinct (map user (reportedBy d)))
     (reviews (snd (reviews_report sample_db 9 20 (Some '' rude  '') 900)))"
    by (simp add: list_all_iff)
  from t0 a0 t1 f us a2 a9 [unfolded a9'] ds al show ?thesis by blast
qed

section \<open>The average rating of a course\<close>

lemma Math_round_bounds:
  "of_int (Math_round x) \<le> x + 1 / 2 \<and> x - 1 / 2 < of_int (Math_round x)"
proof -
  have "of_int \<lfloor>x + 1 / 2\<rfloor> \<le> x + 1 / 2" by (rule of_int_floor_le)
  moreover have "x + 1 / 2 < of_int \<lfloor>x + 1 / 2\<rfloor> + 1"
    using floor_correct [of "x + 1 / 2"] by simp
  ultimately show ?thesis by (simp add: Math_round_def)
qed

lemma calculateAverageRating_none:
  "filter (\<lambda>r. rev_course r = course_id this \<and> isApproved r) rs = [] \<Longrightarrow>
   calculateAverageRating rs this = \<lparr>stats_rating = 0, stats_reviewCount = 0\<rparr>"
  by (simp add: calculateAverageRating_def Review_aggregate_def)

lemma calculateAverageRating_some:
  "filter (\<lambda>r. rev_course r = course_id this \<and> isApproved r) rs \<noteq> [] \<Longrightarrow>
   calculateAverageRating rs this =
     \<lparr>stats_rating =
        of_int (Math_round
          (of_int (sum_list (map rating
              (filter (\<lambda>r. rev_course r = course_id this \<and> isApproved r) rs))) /
           of_nat (length (filter (\<lambda>r. rev_course r = course_id this \<and> isApproved r) rs))
           * 10)) / 10,
      stats_reviewCount =
        length (filter (\<lambda>r. rev_course r = course_id this \<and> isApproved r) rs)\<rparr>"
  by (simp add: calculateAverageRating_def Review_aggregate_def Let_def)

text \<open>
  Claim C6.  The statistics of a course count its approved reviews and no others.
  With none, rating and count are 0.  Otherwise the rating is a whole number of
  tenths and lies within half a tenth of the mean of the approved ratings, the
  upper end included: the mean rounded to one decimal.  The averages are taken in
  exact arithmetic.
\<close>

theorem average_rating_of_approved:
  "stats_reviewCount (calculateAverageRating rs this) =
     length (filter (\<lambda>r. rev_course r = course_id this \<and> isApproved r) rs)
   \<and> (filter (\<lambda>r. rev_course r = course_id this \<and> isApproved r) rs = [] \<longrightarrow>
        stats_rating (calculateAverageRating rs this) = 0)
   \<and> (filter (\<lambda>r. rev_course r = course_id this \<and> isApproved r) rs \<noteq> [] \<longrightarrow>
        (\<exists>k::int. stats_rating (calculateAverageRating rs this) = of_int k / 10) \<and>
        of_int (sum_list (map rating
           (filter (\<lambda>r. rev_course r = course_id this \<and> isApproved r) rs))) /
          of_nat (length (filter (\<lambda>r. rev_course r = course_id this \<and> isApproved r) rs))
          - 1 / 20 < stats_rating (calculateAverageRating rs this) \<and>
        stats_rating (calculateAverageRating rs this) \<le>
          of_int (sum_list (map rating
           (filter (\<lambda>r. rev_course r = course_id this \<and> isApproved r) rs))) /
          of_nat (length (filter (\<lambda>r. rev_course r = course_id this \<and> isApproved r) rs))
          + 1 / 20)"
proof (cases "filter (\<lambda>r. rev_course r = course_id this \<and> isApproved r) rs = []")
  case True
  then show ?thesis by (simp add: calculateAverageRating_none)
next
  case False
  define mean :: rat where "mean =
    of_int (sum_list (map rating
           (filter (\<lambda>r. rev_course r = course_id this \<and> isApproved r) rs))) /
          of_nat (length (filter (\<lambda>r. rev_course r = course_id this \<and> isApproved r) rs))"
  have r: "stats_rating (calculateAverageRating rs this) = of_int (Math_round (mean * 10)) / 10"
    and n: "stats_reviewCount (calculateAverageRating rs this) =
      length (filter (\<lambda>r. rev_course r = course_id this \<and> isApproved r) rs)"
    by (simp_all add: calculateAverageRating_some [OF False] mean_def)
  from Math_round_bounds [of "mean * 10"]
  have "of_int (Math_round (mean * 10)) / 10 \<le> mean + 1 / 20"
    and "mean - 1 / 20 < of_int (Math_round (mean * 10)) / 10"
    by simp_all
  with r n False show ?thesis
    unfolding mean_def [symmetric] by auto
qed

theorem average_rating_of_approved_witness:
  "filter (\<lambda>r. rev_course r = 3 \<and> isApproved r) rated_reviews \<noteq> [] \<and>
   map rating (filter (\<lambda>r. rev_course r = 3 \<and> isApproved r) rated_reviews) = [5, 3, 4] \<and>
   stats_reviewCount
     (calculateAverageRating rated_reviews \<lparr>course_id = 3, course_isActive = True\<rparr>) = 3 \<and>
   stats_rating
     (calculateAverageRating rated_reviews \<lparr>course_id = 3, course_isActive = True\<rparr>) = 4 \<and>
   filter (\<lambda>r. rev_course r = 8 \<and> isApproved r) rated_reviews = [] \<and>
   stats_reviewCount
     (calculateAverageRating rated_reviews \<lparr>course_id = 8, course_isActive = True\<rparr>) = 0 \<and>
   stats_rating
     (calculateAverageRating rated_reviews \<lparr>course_id = 8, course_isActive = True\<rparr>) = 0"
proof -
  let ?c3 = "\<lparr>course_id = 3, course_isActive = True\<rparr>"
  let ?c8 = "\<lparr>course_id = 8, course_isActive = True\<rparr>"
  let ?r3 = "stats_rating (calculateAverageRating rated_reviews ?c3)"
  have m: "map rating (filter (\<lambda>r. rev_course r = 3 \<and> isApproved r) rated_reviews) = [5, 3, 4]"
    by (simp add: rated_reviews_def)
  then have ne: "filter (\<lambda>r. rev_course r = 3 \<and> isApproved r) rated_reviews \<noteq> []"
    by auto
  have len: "length (filter (\<lambda>r. rev_course r = 3 \<and> isApproved r) rated_reviews) = 3"
    using arg_cong [OF m, of length] by simp
  have e8: "filter (\<lambda>r. rev_course r = 8 \<and> isApproved r) rated_reviews = []"
    by (simp add: rated_reviews_def)
  note T3 = average_rating_of_approved [of rated_reviews ?c3, simplified course.simps]
  note T8 = average_rating_of_approved [of rated_reviews ?c8, simplified course.simps]
  have n3: "stats_reviewCount (calculateAverageRating rated_reviews ?c3) = 3"
    using T3 [THEN conjunct1] len by simp
  from T3 [THEN conjunct2, THEN conjunct2] ne
  obtain k :: int where k: "?r3 = of_int k / 10"
    and lo: "of_int (sum_list (map rating
           (filter (\<lambda>r. rev_course r = 3 \<and> isApproved r) rated_reviews))) /
          of_nat (length (filter (\<lambda>r. rev_course r = 3 \<and> isApproved r) rated_reviews))
          - 1 / 20 < ?r3"
    and hi: "?r3 \<le> of_int (sum_list (map rating
           (filter (\<lambda>r. rev_course r = 3 \<and> isApproved r) rated_reviews))) /
          of_nat (length (filter (\<lambda>r. rev_course r = 3 \<and> isApproved r) rated_reviews))
          + 1 / 20"
    by blast
  from lo hi have "4 - 1 / 20 < ?r3" "?r3 \<le> 4 + 1 / 20"
    unfolding m len by simp_all
  with k have "(79::rat) < 2 * of_int k" "2 * of_int k \<le> (81::rat)" by simp_all
  then have "79 < 2 * k" "2 * k \<le> 81"
    by (metis of_int_less_iff of_int_mult of_int_numeral,
        metis of_int_le_iff of_int_mult of_int_numeral)
  then have "k = 40" by arith
  with k have r3: "?r3 = 4" by simp
  have n8: "stats_reviewCount (calculateAverageRating rated_reviews ?c8) = 0"
    using T8 [THEN conjunct1] e8 by simp
  have r8: "stats_rating (calculateAverageRating rated_reviews ?c8) = 0"
    using T8 [THEN conjunct2, THEN conjunct1] e8 by (rule mp)
  from ne m n3 r3 e8 n8 r8 show ?thesis by (intro conjI)
qed

end
